theory Spec2Isabelle
  imports Main "HOL-Library.Sublist"
begin

section \<open>Strings, paths and configuration values\<close>

text \<open>
  The program is the Python module \<^verbatim>\<open>MOBILE_ACCESS_SETUP_MANAGER.py\<close>. File contents are
  byte strings (the files are written with \<^verbatim>\<open>encoding='utf-8'\<close>), so a \<^typ>\<open>string\<close> here
  is the UTF-8 encoding of the Python text.
\<close>

definition nl :: char where
  "nl = CHR 0x0A"

definition text_lines :: "string list \<Rightarrow> string" where
  "text_lines ls = concat (map (\<lambda>l. l @ [nl]) ls)"

text \<open>Decimal text of a number, as \<^verbatim>\<open>str(n)\<close> and \<^verbatim>\<open>json.dump\<close> print it.\<close>

function str_nat :: "nat \<Rightarrow> string" where
  "str_nat n = (if n < 10 then [char_of (48 + n)]
                else str_nat (n div 10) @ [char_of (48 + n mod 10)])"
  by pat_completeness auto
termination
  by (relation "measure (\<lambda>n. n)") auto

declare str_nat.simps [simp del]

definition str_int :: "int \<Rightarrow> string" where
  "str_int i = (if i < 0 then CHR ''-'' # str_nat (nat (- i)) else str_nat (nat i))"

text \<open>
  \<^verbatim>\<open>str.title()\<close> on ASCII text: the first letter of every run of letters is put in upper
  case and the letters after it in lower case. The directory names it is applied to are
  ASCII literals of the source.
\<close>

definition is_lower :: "char \<Rightarrow> bool" where
  "is_lower c = (97 \<le> (of_char c :: nat) \<and> (of_char c :: nat) \<le> 122)"

definition is_upper :: "char \<Rightarrow> bool" where
  "is_upper c = (65 \<le> (of_char c :: nat) \<and> (of_char c :: nat) \<le> 90)"

definition to_upper :: "char \<Rightarrow> char" where
  "to_upper c = (if is_lower c then char_of ((of_char c :: nat) - 32) else c)"

definition to_lower :: "char \<Rightarrow> char" where
  "to_lower c = (if is_upper c then char_of ((of_char c :: nat) + 32) else c)"

fun title_from :: "bool \<Rightarrow> string \<Rightarrow> string" where
  "title_from previous_is_cased [] = []"
| "title_from previous_is_cased (c # cs) =
     (if is_lower c then (if previous_is_cased then c else to_upper c) # title_from True cs
      else if is_upper c then (if previous_is_cased then to_lower c else c) # title_from True cs
      else c # title_from False cs)"

definition title :: "string \<Rightarrow> string" where
  "title s = title_from False s"

text \<open>
  A \<^verbatim>\<open>pathlib.Path\<close> is the list of its components below the filesystem root. The operator
  \<^verbatim>\<open>/\<close> appends the components of its right operand, dropping empty ones and \<^verbatim>\<open>.\<close> as
  pathlib does; every right operand in the program is a relative name.
\<close>

type_synonym path = "string list"

fun split_on :: "char \<Rightarrow> string \<Rightarrow> string list" where
  "split_on sep [] = [[]]"
| "split_on sep (c # cs) =
     (if c = sep then [] # split_on sep cs
      else (case split_on sep cs of [] \<Rightarrow> [[c]] | w # ws \<Rightarrow> (c # w) # ws))"

definition parts :: "string \<Rightarrow> string list" where
  "parts s = filter (\<lambda>w. w \<noteq> [] \<and> w \<noteq> ''.'') (split_on CHR ''/'' s)"

definition path_div :: "path \<Rightarrow> string \<Rightarrow> path" where
  "path_div p s = p @ parts s"

definition str_path :: "path \<Rightarrow> string" where
  "str_path p = concat (map (\<lambda>c. CHR ''/'' # c) p)"

definition parent :: "path \<Rightarrow> path" where
  "parent p = butlast p"

definition basename :: "path \<Rightarrow> string" where
  "basename p = (case rev p of [] \<Rightarrow> [] | c # _ \<Rightarrow> c)"

subsection \<open>Exceptions\<close>

text \<open>
  The exceptions the program can meet. All of them are instances of Python's class
  \<^verbatim>\<open>Exception\<close> but \<^verbatim>\<open>KeyboardInterrupt\<close>, which derives from \<^verbatim>\<open>BaseException\<close> only:
  a clause \<^verbatim>\<open>except Exception\<close> does not catch it.
\<close>

datatype exn =
    KeyError string
  | TypeError
  | UnicodeEncodeError
  | OSError string
  | FileExistsError
  | FileNotFoundError
  | NotADirectoryError
  | CalledProcessError int
  | KeyboardInterrupt

fun is_Exception :: "exn \<Rightarrow> bool" where
  "is_Exception KeyboardInterrupt = False"
| "is_Exception _ = True"

text \<open>The instances of \<^verbatim>\<open>OSError\<close> (\<^verbatim>\<open>shutil.Error\<close> is one, and is written \<open>OSError\<close> here).\<close>

fun is_OSError :: "exn \<Rightarrow> bool" where
  "is_OSError (OSError m) = True"
| "is_OSError FileExistsError = True"
| "is_OSError FileNotFoundError = True"
| "is_OSError NotADirectoryError = True"
| "is_OSError _ = False"

fun str_exn :: "exn \<Rightarrow> string" where
  "str_exn (KeyError k) = [CHR 0x27] @ k @ [CHR 0x27]"
| "str_exn TypeError = ''TypeError''"
| "str_exn UnicodeEncodeError = ''UnicodeEncodeError''"
| "str_exn (OSError m) = m"
| "str_exn FileExistsError = ''FileExistsError''"
| "str_exn FileNotFoundError = ''FileNotFoundError''"
| "str_exn NotADirectoryError = ''NotADirectoryError''"
| "str_exn (CalledProcessError c) = ''non-zero exit status '' @ str_int c"
| "str_exn KeyboardInterrupt = ''''"

definition e_bind :: "exn + 'a \<Rightarrow> ('a \<Rightarrow> exn + 'b) \<Rightarrow> exn + 'b" where
  "e_bind r f = (case r of Inl e \<Rightarrow> Inl e | Inr x \<Rightarrow> f x)"

subsection \<open>The configuration table\<close>

text \<open>
  \<^verbatim>\<open>CONFIG\<close> is a dictionary of dictionaries whose values are numbers and strings. The
  functions below take the table as an argument \<open>cfg\<close>; the source reads the module-level
  constant \<^verbatim>\<open>CONFIG\<close>, which is \<open>CONFIG\<close> here. A subscript with a missing key raises
  \<^verbatim>\<open>KeyError\<close>.
\<close>

datatype cval = CInt int | CStr string

type_synonym config = "string \<rightharpoonup> (string \<rightharpoonup> cval)"

definition CONFIG :: config where
  "CONFIG =
     [''PORTS'' \<mapsto>
        [''MOBILE_DASHBOARD'' \<mapsto> CInt 8000,
         ''API_ENDPOINTS'' \<mapsto> CInt 8001,
         ''MONITORING'' \<mapsto> CInt 8002,
         ''RESEARCH'' \<mapsto> CInt 8003,
         ''GITHUB'' \<mapsto> CInt 8004,
         ''START_PORT'' \<mapsto> CInt 8000,
         ''END_PORT'' \<mapsto> CInt 8601,
         ''TOTAL_PORTS'' \<mapsto> CInt 602],
      ''URLS'' \<mapsto>
        [''BASE_LOCALHOST'' \<mapsto> CStr ''http://localhost'',
         ''MOBILE_DASHBOARD'' \<mapsto> CStr ''http://localhost:8000'',
         ''API_ENDPOINTS'' \<mapsto> CStr ''http://localhost:8001/api/'',
         ''MONITORING'' \<mapsto> CStr ''http://localhost:8002/monitor/'',
         ''RESEARCH'' \<mapsto> CStr ''http://localhost:8003/research/'',
         ''GITHUB'' \<mapsto> CStr ''http://localhost:8004/github/''],
      ''GITHUB'' \<mapsto>
        [''USERNAME'' \<mapsto> CStr ''worldwidebro'',
         ''MAIN_REPO_NAME'' \<mapsto> CStr ''iza-os-ecosystem'']]"

definition getitem :: "(string \<rightharpoonup> 'v) \<Rightarrow> string \<Rightarrow> exn + 'v" where
  "getitem d k = (case d k of None \<Rightarrow> Inl (KeyError k) | Some v \<Rightarrow> Inr v)"

definition CONFIG_get :: "config \<Rightarrow> string \<Rightarrow> string \<Rightarrow> exn + cval" where
  "CONFIG_get cfg section key = e_bind (getitem cfg section) (\<lambda>table. getitem table key)"

text \<open>The text an f-string puts in place of a value.\<close>

fun py_str :: "cval \<Rightarrow> string" where
  "py_str (CStr s) = s"
| "py_str (CInt i) = str_int i"

text \<open>\<^verbatim>\<open>path / value\<close>: pathlib accepts a string and raises \<^verbatim>\<open>TypeError\<close> on a number.\<close>

fun path_div_val :: "path \<Rightarrow> cval \<Rightarrow> exn + path" where
  "path_div_val p (CStr s) = Inr (path_div p s)"
| "path_div_val p (CInt i) = Inl TypeError"

subsection \<open>JSON values and \<^verbatim>\<open>json.dump(..., indent=2)\<close>\<close>

datatype json =
    JBool bool
  | JInt int
  | JStr string
  | JList "json list"
  | JObj "(string \<times> json) list"

fun to_json :: "cval \<Rightarrow> json" where
  "to_json (CInt i) = JInt i"
| "to_json (CStr s) = JStr s"

definition jget :: "json \<Rightarrow> string \<Rightarrow> json option" where
  "jget j k = (case j of JObj kvs \<Rightarrow> map_of kvs k | _ \<Rightarrow> None)"

definition jget2 :: "json \<Rightarrow> string \<Rightarrow> string \<Rightarrow> json option" where
  "jget2 j k1 k2 = (case jget j k1 of None \<Rightarrow> None | Some t \<Rightarrow> jget t k2)"

definition hex_digit :: "nat \<Rightarrow> char" where
  "hex_digit n = (if n < 10 then char_of (48 + n) else char_of (87 + n))"

text \<open>
  The escapes of the JSON encoder on ASCII text. The strings the program serialises (its
  literal keys and the ISO timestamp) are ASCII; a byte from 0x80 on belongs to a code
  point the encoder would write as a six-character escape, and is left as it is here.
\<close>

definition json_escape_char :: "char \<Rightarrow> string" where
  "json_escape_char c =
     (if c = CHR 0x22 then [CHR 0x5C, CHR 0x22]
      else if c = CHR 0x5C then [CHR 0x5C, CHR 0x5C]
      else if c = CHR 0x0A then [CHR 0x5C, CHR ''n'']
      else if c = CHR 0x0D then [CHR 0x5C, CHR ''r'']
      else if c = CHR 0x09 then [CHR 0x5C, CHR ''t'']
      else if c = CHR 0x08 then [CHR 0x5C, CHR ''b'']
      else if c = CHR 0x0C then [CHR 0x5C, CHR ''f'']
      else if (of_char c :: nat) < 32
        then [CHR 0x5C, CHR ''u'', CHR ''0'', CHR ''0'',
              hex_digit ((of_char c :: nat) div 16), hex_digit ((of_char c :: nat) mod 16)]
      else [c])"

definition json_string :: "string \<Rightarrow> string" where
  "json_string s = [CHR 0x22] @ concat (map json_escape_char s) @ [CHR 0x22]"

fun join :: "string \<Rightarrow> string list \<Rightarrow> string" where
  "join sep [] = []"
| "join sep [x] = x"
| "join sep (x # y # ys) = x @ sep @ join sep (y # ys)"

definition newline_indent :: "nat \<Rightarrow> string" where
  "newline_indent level = nl # replicate (2 * level) CHR '' ''"

fun json_dumps :: "nat \<Rightarrow> json \<Rightarrow> string" where
  "json_dumps level (JBool b) = (if b then ''true'' else ''false'')"
| "json_dumps level (JInt i) = str_int i"
| "json_dumps level (JStr s) = json_string s"
| "json_dumps level (JList xs) =
     (if xs = [] then ''[]''
      else ''['' @ newline_indent (Suc level)
           @ join ('','' @ newline_indent (Suc level)) (map (json_dumps (Suc level)) xs)
           @ newline_indent level @ '']'')"
| "json_dumps level (JObj kvs) =
     (if kvs = [] then ''{}''
      else ''{'' @ newline_indent (Suc level)
           @ join ('','' @ newline_indent (Suc level))
               (map (\<lambda>kv. json_string (fst kv) @ '': '' @ json_dumps (Suc level) (snd kv)) kvs)
           @ newline_indent level @ ''}'')"

subsection \<open>\<^verbatim>\<open>datetime.now().isoformat()\<close>\<close>

record datetime =
  year :: nat
  month :: nat
  day :: nat
  hour :: nat
  minute :: nat
  second :: nat
  microsecond :: nat

definition zpad :: "nat \<Rightarrow> nat \<Rightarrow> string" where
  "zpad width n = replicate (width - length (str_nat n)) CHR ''0'' @ str_nat n"

definition isoformat :: "datetime \<Rightarrow> string" where
  "isoformat d =
     zpad 4 (year d) @ ''-'' @ zpad 2 (month d) @ ''-'' @ zpad 2 (day d) @ ''T''
     @ zpad 2 (hour d) @ '':'' @ zpad 2 (minute d) @ '':'' @ zpad 2 (second d)
     @ (if microsecond d = 0 then [] else ''.'' @ zpad 6 (microsecond d))"

section \<open>The world the program runs in\<close>

text \<open>
  The filesystem is a set of directories, a map from the paths of regular files to their
  bytes, and the set of paths with the executable bit. The world also holds the counter of
  the temporary-name generator, the number of clock readings made so far, the system calls
  and subprocesses attempted (oldest first), and the records handed to the logger.
  What \<^verbatim>\<open>git\<close> itself stores below \<^verbatim>\<open>.git\<close> is not part of the model.
\<close>

datatype git_cmd =
    Git_init
  | Git_add_all
  | Git_commit string
  | Git_remote_add string string

datatype event =
    Ev_mkdir path
  | Ev_tmp_create path
  | Ev_write path string
  | Ev_close path
  | Ev_rename path path
  | Ev_copy path path
  | Ev_unlink path
  | Ev_touch path
  | Ev_chmod path
  | Ev_run path git_cmd

datatype log_record =
    Log_info string
  | Log_error string exn

record world =
  dirs :: "path set"
  files :: "path \<rightharpoonup> string"
  executable :: "path set"
  tmp_counter :: nat
  ticks :: nat
  trace :: "event list"
  log :: "log_record list"

text \<open>
  The environment decides everything the program does not: the directory of temporary
  files (\<^verbatim>\<open>tempfile.gettempdir()\<close>), the names the generator hands out, which filesystem a
  directory is on, the failure (if any) that the operating system answers an operation
  with, how many bytes of a failed write have reached the file, the exit status of each
  version-control command, and the clock.
\<close>

datatype op =
    Op_mkdir path
  | Op_tmp_create path
  | Op_write path
  | Op_close path
  | Op_rename path path
  | Op_copy path path
  | Op_unlink path
  | Op_touch path
  | Op_chmod path
  | Op_run path git_cmd

record env =
  tmpdir :: path
  tmp_name :: "nat \<Rightarrow> string"
  device :: "path \<Rightarrow> nat"
  fault :: "op \<Rightarrow> exn option"
  flushed :: "path \<Rightarrow> nat"
  exit_status :: "path \<Rightarrow> git_cmd \<Rightarrow> int"
  clock :: "nat \<Rightarrow> datetime"

subsection \<open>Statements that may raise\<close>

text \<open>
  A statement maps the world to its result and the world it leaves: \<open>Inl e\<close> when it raised
  \<open>e\<close>, \<open>Inr x\<close> when it returned \<open>x\<close>. A raising statement keeps the effects it had before
  the exception.
\<close>

type_synonym 'a io = "world \<Rightarrow> (exn + 'a) \<times> world"

definition io_return :: "'a \<Rightarrow> 'a io" where
  "io_return x w = (Inr x, w)"

definition io_raise :: "exn \<Rightarrow> 'a io" where
  "io_raise e w = (Inl e, w)"

definition io_lift :: "exn + 'a \<Rightarrow> 'a io" where
  "io_lift r w = (r, w)"

definition io_bind :: "'a io \<Rightarrow> ('a \<Rightarrow> 'b io) \<Rightarrow> 'b io" where
  "io_bind m f w = (case m w of (Inl e, w') \<Rightarrow> (Inl e, w') | (Inr x, w') \<Rightarrow> f x w')"

definition io_seq :: "'a io \<Rightarrow> 'b io \<Rightarrow> 'b io" where
  "io_seq m n = io_bind m (\<lambda>_. n)"

text \<open>\<^verbatim>\<open>try: body  except Exception as e: handler\<close>.\<close>

definition except_Exception :: "'a io \<Rightarrow> (exn \<Rightarrow> 'a io) \<Rightarrow> 'a io" where
  "except_Exception body handler w =
     (case body w of
        (Inl e, w') \<Rightarrow> if is_Exception e then handler e w' else (Inl e, w')
      | (Inr x, w') \<Rightarrow> (Inr x, w'))"

subsection \<open>Logging and the clock\<close>

definition logger_info :: "string \<Rightarrow> unit io" where
  "logger_info msg w = (Inr (), w\<lparr>log := log w @ [Log_info msg]\<rparr>)"

definition logger_error :: "string \<Rightarrow> exn \<Rightarrow> unit io" where
  "logger_error msg e w = (Inr (), w\<lparr>log := log w @ [Log_error msg e]\<rparr>)"

definition datetime_now :: "env \<Rightarrow> datetime io" where
  "datetime_now env w = (Inr (clock env (ticks w)), w\<lparr>ticks := Suc (ticks w)\<rparr>)"

subsection \<open>Filesystem and subprocess operations\<close>

text \<open>
  \<^verbatim>\<open>Path.mkdir(parents=True, exist_ok=True)\<close>: an existing directory is accepted, missing
  parents are created; a regular file at the path or at one of its parents makes the call
  fail before anything is created.
\<close>

definition mkdir_p :: "env \<Rightarrow> path \<Rightarrow> unit io" where
  "mkdir_p env p w =
     (let w1 = w\<lparr>trace := trace w @ [Ev_mkdir p]\<rparr> in
      case fault env (Op_mkdir p) of
        Some e \<Rightarrow> (Inl e, w1)
      | None \<Rightarrow>
          if files w p \<noteq> None then (Inl FileExistsError, w1)
          else if list_ex (\<lambda>q. files w q \<noteq> None) (prefixes p) then (Inl NotADirectoryError, w1)
          else (Inr (), w1\<lparr>dirs := dirs w \<union> set (prefixes p)\<rparr>))"

text \<open>
  \<^verbatim>\<open>tempfile.NamedTemporaryFile(mode='w', encoding='utf-8', delete=False, suffix='.tmp')\<close>:
  no \<^verbatim>\<open>dir\<close> argument is given, so the file is created in the directory of temporary files.
  As \<^verbatim>\<open>tempfile._mkstemp_inner\<close> does, the names of the generator are tried in turn, each
  with an exclusive \<^verbatim>\<open>os.open\<close>: a name in use (\<^verbatim>\<open>FileExistsError\<close>) is passed over, any
  other failure is raised, and after \<^verbatim>\<open>TMP_MAX\<close> names in use the call raises
  \<^verbatim>\<open>FileExistsError\<close>.
\<close>

definition TMP_MAX :: nat where
  "TMP_MAX = 10000"

fun mkstemp_inner :: "env \<Rightarrow> nat \<Rightarrow> path io" where
  "mkstemp_inner env 0 w = (Inl FileExistsError, w)"
| "mkstemp_inner env (Suc attempts) w =
     (let p = tmpdir env @ [tmp_name env (tmp_counter w)];
          w1 = w\<lparr>tmp_counter := Suc (tmp_counter w), trace := trace w @ [Ev_tmp_create p]\<rparr> in
      case fault env (Op_tmp_create p) of
        Some e \<Rightarrow> if e = FileExistsError then mkstemp_inner env attempts w1 else (Inl e, w1)
      | None \<Rightarrow>
          if files w p = None \<and> p \<notin> dirs w
          then (Inr p, w1\<lparr>files := (files w)(p \<mapsto> [])\<rparr>)
          else mkstemp_inner env attempts w1)"

definition named_temporary_file :: "env \<Rightarrow> path io" where
  "named_temporary_file env = mkstemp_inner env TMP_MAX"

text \<open>
  \<^verbatim>\<open>temp_file.write(content)\<close> (and \<^verbatim>\<open>json.dump(obj, temp_file, indent=2)\<close>, which writes the
  serialised text): when the write fails, the bytes flushed so far stay in the file.
\<close>

definition file_write :: "env \<Rightarrow> path \<Rightarrow> string \<Rightarrow> unit io" where
  "file_write env p content w =
     (case fault env (Op_write p) of
        Some e \<Rightarrow>
          (Inl e, w\<lparr>files := (files w)(p \<mapsto> take (flushed env p) content),
                    trace := trace w @ [Ev_write p (take (flushed env p) content)]\<rparr>)
      | None \<Rightarrow>
          (Inr (), w\<lparr>files := (files w)(p \<mapsto> content),
                     trace := trace w @ [Ev_write p content]\<rparr>))"

definition file_close :: "env \<Rightarrow> path \<Rightarrow> unit io" where
  "file_close env p w =
     (let w1 = w\<lparr>trace := trace w @ [Ev_close p]\<rparr> in
      case fault env (Op_close p) of Some e \<Rightarrow> (Inl e, w1) | None \<Rightarrow> (Inr (), w1))"

definition os_path_exists :: "path \<Rightarrow> bool io" where
  "os_path_exists p w = (Inr (case files w p of Some _ \<Rightarrow> True | None \<Rightarrow> p \<in> dirs w), w)"

definition os_unlink :: "env \<Rightarrow> path \<Rightarrow> unit io" where
  "os_unlink env p w =
     (let w1 = w\<lparr>trace := trace w @ [Ev_unlink p]\<rparr> in
      case fault env (Op_unlink p) of
        Some e \<Rightarrow> (Inl e, w1)
      | None \<Rightarrow>
          if files w p = None then (Inl FileNotFoundError, w1)
          else (Inr (), w1\<lparr>files := (files w)(p := None)\<rparr>))"

text \<open>
  \<^verbatim>\<open>os.rename(src, dst)\<close> of a regular file: it replaces the destination atomically, and
  is refused by the system when the two directories are on different filesystems.
\<close>

definition os_rename :: "env \<Rightarrow> path \<Rightarrow> path \<Rightarrow> unit io" where
  "os_rename env src dst w =
     (let w1 = w\<lparr>trace := trace w @ [Ev_rename src dst]\<rparr> in
      case fault env (Op_rename src dst) of
        Some e \<Rightarrow> (Inl e, w1)
      | None \<Rightarrow>
          if files w src = None then (Inl FileNotFoundError, w1)
          else if parent dst \<notin> dirs w then (Inl FileNotFoundError, w1)
          else if device env (parent src) = device env (parent dst)
          then (Inr (), w1\<lparr>files := (files w)(src := None, dst := files w src)\<rparr>)
          else (Inl (OSError ''Invalid cross-device link''), w1))"

text \<open>
  \<^verbatim>\<open>shutil.copy2(src, dst)\<close>: it opens the destination for writing and copies the bytes; a
  failure leaves the bytes copied so far in the destination.
\<close>

definition copy2 :: "env \<Rightarrow> path \<Rightarrow> path \<Rightarrow> unit io" where
  "copy2 env src dst w =
     (let w1 = w\<lparr>trace := trace w @ [Ev_copy src dst]\<rparr> in
      case files w src of
        None \<Rightarrow> (Inl FileNotFoundError, w1)
      | Some bytes \<Rightarrow>
          if parent dst \<notin> dirs w then (Inl FileNotFoundError, w1)
          else
            (case fault env (Op_copy src dst) of
               Some e \<Rightarrow> (Inl e, w1\<lparr>files := (files w)(dst \<mapsto> take (flushed env dst) bytes)\<rparr>)
             | None \<Rightarrow> (Inr (), w1\<lparr>files := (files w)(dst \<mapsto> bytes)\<rparr>)))"

text \<open>
  \<^verbatim>\<open>shutil.move(src, dst)\<close> of a regular file. A destination that is an existing directory
  receives the file under the source's own name, unless that name is taken. The move is
  first tried as one \<^verbatim>\<open>os.rename\<close>; when that raises an \<^verbatim>\<open>OSError\<close> (as it does across
  filesystems), \<^verbatim>\<open>shutil.move\<close> copies the file to the destination and then unlinks the
  source.
\<close>

definition shutil_move :: "env \<Rightarrow> path \<Rightarrow> path \<Rightarrow> unit io" where
  "shutil_move env src dst w =
     (let real_dst = (if dst \<in> dirs w then dst @ [basename src] else dst) in
      if dst \<in> dirs w \<and> (case files w real_dst of Some _ \<Rightarrow> True | None \<Rightarrow> real_dst \<in> dirs w)
      then (Inl (OSError ''Destination path already exists''), w)
      else
        (case os_rename env src real_dst w of
           (Inr u, w1) \<Rightarrow> (Inr (), w1)
         | (Inl e, w1) \<Rightarrow>
             if is_OSError e
             then io_seq (copy2 env src real_dst) (os_unlink env src) w1
             else (Inl e, w1)))"

text \<open>\<^verbatim>\<open>Path.touch()\<close>: creates an empty file when nothing is at the path, and leaves the
  content of an existing file alone.\<close>

definition touch :: "env \<Rightarrow> path \<Rightarrow> unit io" where
  "touch env p w =
     (let w1 = w\<lparr>trace := trace w @ [Ev_touch p]\<rparr> in
      case fault env (Op_touch p) of
        Some e \<Rightarrow> (Inl e, w1)
      | None \<Rightarrow>
          if files w p = None \<and> p \<notin> dirs w
          then (if parent p \<in> dirs w then (Inr (), w1\<lparr>files := (files w)(p \<mapsto> [])\<rparr>)
                else (Inl FileNotFoundError, w1))
          else (Inr (), w1))"

text \<open>\<^verbatim>\<open>os.chmod(path, 0o755)\<close>.\<close>

definition os_chmod :: "env \<Rightarrow> path \<Rightarrow> unit io" where
  "os_chmod env p w =
     (let w1 = w\<lparr>trace := trace w @ [Ev_chmod p]\<rparr> in
      case fault env (Op_chmod p) of
        Some e \<Rightarrow> (Inl e, w1)
      | None \<Rightarrow>
          if files w p = None \<and> p \<notin> dirs w then (Inl FileNotFoundError, w1)
          else (Inr (), w1\<lparr>executable := insert p (executable w)\<rparr>))"

text \<open>\<^verbatim>\<open>subprocess.run(cmd, cwd=..., check=True)\<close>: a non-zero exit status raises
  \<^verbatim>\<open>CalledProcessError\<close>; standard output and error are not read.\<close>

definition subprocess_run :: "env \<Rightarrow> path \<Rightarrow> git_cmd \<Rightarrow> unit io" where
  "subprocess_run env cwd cmd w =
     (let w1 = w\<lparr>trace := trace w @ [Ev_run cwd cmd]\<rparr> in
      case fault env (Op_run cwd cmd) of
        Some e \<Rightarrow> (Inl e, w1)
      | None \<Rightarrow>
          if exit_status env cwd cmd = 0 then (Inr (), w1)
          else (Inl (CalledProcessError (exit_status env cwd cmd)), w1))"

section \<open>The atomic write\<close>

text \<open>
  The block that every generated file goes through (eight times in the source, for
  example lines 209 to 218):
  \<^verbatim>\<open>
  temp_file = tempfile.NamedTemporaryFile(mode='w', encoding='utf-8', delete=False, suffix='.tmp')
  try:
      temp_file.write(content)
      temp_file.close()
      shutil.move(temp_file.name, target)
  except Exception:
      if os.path.exists(temp_file.name):
          os.unlink(temp_file.name)
      raise
  \<close>
\<close>

definition atomic_write :: "env \<Rightarrow> path \<Rightarrow> string \<Rightarrow> unit io" where
  "atomic_write env target content =
     io_bind (named_temporary_file env) (\<lambda>temp_file.
       except_Exception
         (io_seq (file_write env temp_file content)
           (io_seq (file_close env temp_file)
             (shutil_move env temp_file target)))
         (\<lambda>e. io_seq
                (io_bind (os_path_exists temp_file)
                   (\<lambda>found. if found then os_unlink env temp_file else io_return ()))
                (io_raise e)))"

section \<open>The manager and the text of the generated files\<close>

text \<open>
  The fields of \<^verbatim>\<open>MobileAccessSetupManager\<close> set by \<^verbatim>\<open>__init__\<close>; \<open>base\<close> is
  \<^verbatim>\<open>Path(__file__).parent\<close>. The logging handlers that \<^verbatim>\<open>__init__\<close> installs are not modelled;
  the records passed to the logger are kept in the world.
\<close>

record manager =
  base_path :: path
  completion_analysis :: path
  github_instructions :: path
  mobile_dir :: path
  log_file :: path
  setup_complete :: bool
  github_username :: cval
  main_repo_name :: cval

definition MobileAccessSetupManager :: "config \<Rightarrow> path \<Rightarrow> exn + manager" where
  "MobileAccessSetupManager cfg base =
     e_bind (CONFIG_get cfg ''GITHUB'' ''USERNAME'') (\<lambda>username.
     e_bind (CONFIG_get cfg ''GITHUB'' ''MAIN_REPO_NAME'') (\<lambda>repo_name.
       Inr \<lparr>base_path = base,
            completion_analysis = path_div base ''100_percent_completion_analysis.json'',
            github_instructions = path_div base ''GITHUB_SETUP_INSTRUCTIONS.md'',
            mobile_dir = path_div base ''mobile_repositories'',
            log_file = path_div base ''mobile_access_setup.log'',
            setup_complete = False,
            github_username = username,
            main_repo_name = repo_name\<rparr>))"

text \<open>The value of \<^verbatim>\<open>CONFIG[section][key]\<close> as an f-string formats it.\<close>

definition fmt :: "config \<Rightarrow> string \<Rightarrow> string \<Rightarrow> exn + string" where
  "fmt cfg section key = e_bind (CONFIG_get cfg section key) (\<lambda>v. Inr (py_str v))"

subsection \<open>Static text of the string literals\<close>

text \<open>
  The literal text of the source's templates, split where a formatted literal has a
  replacement field. In a plain literal the lines holding brace expressions are given a
  constant of their own.
\<close>

text \<open>Static text number 3 of the formatted string literal \<^verbatim>\<open>readme_content\<close> that starts on source line 183.\<close>

definition dir_readme_text_3 :: string where
  \<open>dir_readme_text_3 = text_lines
    ['''',
     '''',
     ''## Mobile Access'',
     '''',
     ''This directory is optimized for mobile access and remote management.'',
     '''',
     ''## Quick Start'',
     '''',
     ''```bash'',
     ''# Navigate to this directory'']
    @ ''cd ''\<close>

text \<open>Static text number 4 of the formatted string literal \<^verbatim>\<open>readme_content\<close> that starts on source line 183.\<close>

definition dir_readme_text_4 :: string where
  \<open>dir_readme_text_4 = text_lines
    ['''',
     '''',
     ''# View available files'',
     ''ls -la'',
     ''```'',
     '''',
     ''## Mobile Optimization'',
     '''',
     ''- Compressed file formats'',
     ''- Optimized for mobile viewing'',
     ''- Remote access enabled'',
     ''- Mobile-friendly documentation'']\<close>

text \<open>Static text number 1 of the formatted string literal \<^verbatim>\<open>readme_content\<close> that starts on source line 234.\<close>

definition readme_text_1 :: string where
  \<open>readme_text_1 = text_lines
    [''# IZA OS Ecosystem - Mobile Access'',
     '''',
     ''**Autonomous Venture Studio - $724M+ Ecosystem**'',
     '''',
     ''## '' @ [CHR 0xF0, CHR 0x9F, CHR 0x9A, CHR 0x80] @ '' Quick Start (Mobile)'',
     '''',
     ''### Prerequisites'',
     ''- Python 3.9+'',
     ''- Git'',
     ''- Mobile device with internet access'',
     '''',
     ''### Installation'',
     '''',
     ''```bash'',
     ''# Clone the repository'']
    @ ''git clone https://github.com/''\<close>

text \<open>Static text number 4 of the formatted string literal \<^verbatim>\<open>readme_content\<close> that starts on source line 234.\<close>

definition readme_text_4 :: string where
  \<open>readme_text_4 = text_lines
    ['''',
     '''',
     ''# Install dependencies'',
     ''pip install -r requirements.txt'',
     '''',
     ''# Run mobile setup'',
     ''chmod +x mobile_setup.sh'',
     ''./mobile_setup.sh'',
     ''```'',
     '''',
     ''### Mobile Access'',
     '''',
     ''The ecosystem is optimized for mobile access with the following features:'',
     '''']
    @ ''- **Mobile Dashboard**: ''\<close>

text \<open>Static text number 9 of the formatted string literal \<^verbatim>\<open>readme_content\<close> that starts on source line 234.\<close>

definition readme_text_9 :: string where
  \<open>readme_text_9 = text_lines
    ['''',
     '''',
     ''### Ecosystem Overview'',
     '''',
     ''- **Total Entities**: 730+'',
     ''- **Business Value**: $724M+'',
     ''- **Automation Level**: 95%'',
     ''- **Revenue Potential**: $300M ARR'',
     ''- **Mobile Optimized**: '' @ [CHR 0xE2, CHR 0x9C, CHR 0x85],
     '''',
     ''### Key Components'',
     '''',
     ''#### Core Systems'',
     ''- **IZA OS Components**: 7 core components ($16.8M value)'',
     ''- **Business Entities**: 382 businesses ($221.3M value)'',
     ''- **Frontend Entities**: 26 mobile-optimized projects'',
     ''- **Repository Entities**: 204 repositories ($15.4M value)'',
     '''',
     ''#### Integrations'',
     ''- **MCP Servers**: Apple Notes, Obsidian, Jupyter'',
     ''- **Research Processing**: 25 papers ($28M enhancement)'',
     ''- **GitHub Integration**: 530 repositories across 5 accounts'',
     ''- **Docker Containers**: 730 containers with port allocations'',
     '''',
     ''#### Mobile Features'',
     ''- **Responsive Design**: All dashboards mobile-optimized'',
     ''- **Touch-Friendly**: Mobile-first interface design'',
     ''- **Offline Support**: Core functionality available offline'',
     ''- **Push Notifications**: Real-time alerts and updates'',
     ''- **Mobile API**: RESTful API optimized for mobile clients'',
     '''',
     ''### Quick Commands'',
     '''',
     ''```bash'',
     ''# Start mobile-optimized server'',
     ''python mobile_server.py'',
     '''',
     ''# Check system status'',
     ''python check_status.py'',
     '''',
     ''# View mobile dashboard'']
    @ ''open ''\<close>

text \<open>Static text number 11 of the formatted string literal \<^verbatim>\<open>readme_content\<close> that starts on source line 234.\<close>

definition readme_text_11 :: string where
  \<open>readme_text_11 = text_lines
    [''status'',
     ''```'',
     '''',
     ''### Mobile Dashboard Access'',
     '''',
     ''The mobile dashboard provides:'',
     '''',
     ''- **Real-time Monitoring**: System health and performance'',
     ''- **Entity Management**: Manage all 730+ entities'',
     ''- **Revenue Tracking**: Monitor $300M ARR potential'',
     ''- **Research Insights**: Access processed research data'',
     ''- **GitHub Integration**: Repository management'',
     ''- **MCP Services**: Apple Notes, Obsidian, Jupyter access'',
     '''',
     ''### Support'',
     '''',
     ''For mobile access support:'',
     ''- **Documentation**: See `docs/` directory'',
     ''- **Mobile Guide**: See `mobile/` directory'',
     ''- **API Reference**: See `api/` directory'',
     '''',
     ''### License'',
     '''',
     ''Autonomous Venture Studio - All Rights Reserved'',
     '''',
     ''---'',
     '''',
     ''**Mobile Access Enabled** '' @ [CHR 0xE2, CHR 0x9C, CHR 0x85] @ ''  '',
     ''**Ecosystem Value**: $724M+  '',
     ''**Automation Level**: 95%  '',
     ''**Mobile Optimized**: Yes'']\<close>

text \<open>Source lines 367 to 414 of the plain string literal \<^verbatim>\<open>requirements_content\<close>, byte for byte in UTF-8.\<close>

definition requirements_text_1 :: string where
  \<open>requirements_text_1 = text_lines
    [''# Mobile-Optimized Requirements'',
     ''# Autonomous Venture Studio - Mobile Access'',
     '''',
     ''# Core Framework'',
     ''flask==2.3.3'',
     ''gunicorn==21.2.0'',
     '''',
     ''# Database & Caching'',
     ''redis==4.6.0'',
     ''sqlalchemy==2.0.21'',
     '''',
     ''# Task Queue'',
     ''celery==5.3.1'',
     '''',
     ''# HTTP & API'',
     ''requests==2.31.0'',
     ''flask-cors==4.0.0'',
     ''flask-restful==0.3.10'',
     '''',
     ''# Configuration'',
     ''python-dotenv==1.0.0'',
     ''pyyaml==6.0.1'',
     '''',
     ''# Monitoring & Logging'',
     ''psutil==5.9.6'',
     ''loguru==0.7.2'',
     '''',
     ''# Mobile Optimization'',
     ''flask-compress==1.13'',
     ''flask-caching==2.1.0'',
     '''',
     ''# Data Processing'',
     ''pandas==2.1.1'',
     ''numpy==1.24.3'',
     '''',
     ''# Security'',
     ''cryptography==41.0.4'',
     ''flask-jwt-extended==4.5.2'',
     '''',
     ''# Development'',
     ''pytest==7.4.2'',
     ''black==23.7.0'',
     ''flake8==6.0.0'',
     '''',
     ''# Mobile-Specific'',
     ''flask-mobile==0.1.0'',
     ''user-agents==2.2.0'']\<close>

text \<open>Source lines 429 to 467 of the plain string literal \<^verbatim>\<open>mobile_docs_content\<close>, byte for byte in UTF-8.\<close>

definition mobile_docs_text_1 :: string where
  \<open>mobile_docs_text_1 = text_lines
    [''# Mobile Setup Documentation'',
     '''',
     ''## Mobile Access Setup'',
     '''',
     ''This document provides instructions for setting up mobile access to the Autonomous Venture Studio ecosystem.'',
     '''',
     ''### Prerequisites'',
     '''',
     ''1. **Python 3.9+** installed'',
     ''2. **Git** installed'',
     ''3. **Mobile device** with internet access'',
     ''4. **GitHub account** access'',
     '''',
     ''### Installation Steps'',
     '''',
     ''1. **Clone Repository**'',
     ''   ```bash'',
     ''   git clone https://github.com/worldwidebro/iza-os-ecosystem.git'',
     ''   cd iza-os-ecosystem'',
     ''   ```'',
     '''',
     ''2. **Install Dependencies**'',
     ''   ```bash'',
     ''   pip install -r requirements.txt'',
     ''   ```'',
     '''',
     ''3. **Run Mobile Setup**'',
     ''   ```bash'',
     ''   chmod +x mobile_setup.sh'',
     ''   ./mobile_setup.sh'',
     ''   ```'',
     '''',
     ''4. **Start Mobile Server**'',
     ''   ```bash'',
     ''   python mobile_server.py'',
     ''   ```'',
     '''',
     ''### Mobile Access Points'',
     '''']\<close>

text \<open>Source lines 468 to 472 of the plain (not formatted) string literal \<^verbatim>\<open>mobile_docs_content\<close>: the brace expressions are ordinary characters of the literal.\<close>

definition mobile_docs_placeholders :: string where
  \<open>mobile_docs_placeholders = text_lines
    [''- **Main Dashboard**: {CONFIG["URLS"]["MOBILE_DASHBOARD"]}'',
     ''- **API Endpoints**: {CONFIG["URLS"]["API_ENDPOINTS"]}'',
     ''- **Monitoring**: {CONFIG["URLS"]["MONITORING"]}'',
     ''- **Research**: {CONFIG["URLS"]["RESEARCH"]}'',
     ''- **GitHub**: {CONFIG["URLS"]["GITHUB"]}'']\<close>

text \<open>Source lines 473 to 489 of the plain string literal \<^verbatim>\<open>mobile_docs_content\<close>, byte for byte in UTF-8.\<close>

definition mobile_docs_text_2 :: string where
  \<open>mobile_docs_text_2 = text_lines
    ['''',
     ''### Mobile Features'',
     '''',
     ''- Responsive design for all screen sizes'',
     ''- Touch-friendly interface'',
     ''- Offline functionality'',
     ''- Push notifications'',
     ''- Mobile-optimized API'',
     '''',
     ''### Troubleshooting'',
     '''',
     ''See `docs/troubleshooting.md` for common issues and solutions.'',
     '''',
     ''### Support'',
     '''',
     ''For mobile access support, contact the development team.'']\<close>

text \<open>Source lines 514 to 552 of the plain string literal \<^verbatim>\<open>setup_script_content\<close>, byte for byte in UTF-8.\<close>

definition setup_script_text_1 :: string where
  \<open>setup_script_text_1 = text_lines
    [''#!/bin/bash'',
     ''# Mobile Setup Script for Autonomous Venture Studio'',
     ''# IZA OS Ecosystem - Mobile Access'',
     '''',
     ''echo "'' @ [CHR 0xF0, CHR 0x9F, CHR 0x9A, CHR 0x80] @ '' Setting up mobile access for Autonomous Venture Studio..."'',
     ''echo "============================================================"'',
     '''',
     ''# Check Python version'',
     ''python_version=$(python3 --version 2>&1)'',
     ''echo "Python version: $python_version"'',
     '''',
     ''# Install dependencies'',
     ''echo "'' @ [CHR 0xF0, CHR 0x9F, CHR 0x93, CHR 0xA6] @ '' Installing dependencies..."'',
     ''pip install -r requirements.txt'',
     '''',
     ''# Set up environment'',
     ''echo "'' @ [CHR 0xF0, CHR 0x9F, CHR 0x94, CHR 0xA7] @ '' Setting up environment..."'',
     ''export FLASK_ENV=production'',
     ''export MOBILE_OPTIMIZATION=true'',
     ''export ECOSYSTEM_MODE=mobile'',
     '''',
     ''# Create necessary directories'',
     ''echo "'' @ [CHR 0xF0, CHR 0x9F, CHR 0x93, CHR 0x81] @ '' Creating directories..."'',
     ''mkdir -p logs'',
     ''mkdir -p data'',
     ''mkdir -p config'',
     ''mkdir -p mobile/cache'',
     '''',
     ''# Set permissions'',
     ''echo "'' @ [CHR 0xF0, CHR 0x9F, CHR 0x94, CHR 0x90] @ '' Setting permissions..."'',
     ''chmod +x scripts/*.py'',
     ''chmod +x mobile/*.py'',
     '''',
     ''# Initialize mobile configuration'',
     ''echo "'' @ [CHR 0xE2, CHR 0x9A, CHR 0x99, CHR 0xEF, CHR 0xB8, CHR 0x8F] @ '' Initializing mobile configuration..."'',
     ''python scripts/init_mobile_config.py'',
     '''',
     ''# Start mobile-optimized server'',
     ''echo "'' @ [CHR 0xF0, CHR 0x9F, CHR 0x8C, CHR 0x90] @ '' Starting mobile-optimized server..."'']\<close>

text \<open>Source lines 553 to 557 of the plain (not formatted) string literal \<^verbatim>\<open>setup_script_content\<close>: the brace expressions are ordinary characters of the literal.\<close>

definition setup_script_placeholders :: string where
  \<open>setup_script_placeholders = text_lines
    [''echo "Mobile Dashboard: {CONFIG["URLS"]["MOBILE_DASHBOARD"]}"'',
     ''echo "API Endpoints: {CONFIG["URLS"]["API_ENDPOINTS"]}"'',
     ''echo "Monitoring: {CONFIG["URLS"]["MONITORING"]}"'',
     ''echo "Research: {CONFIG["URLS"]["RESEARCH"]}"'',
     ''echo "GitHub: {CONFIG["URLS"]["GITHUB"]}"'']\<close>

text \<open>Source lines 558 to 566 of the plain string literal \<^verbatim>\<open>setup_script_content\<close>, byte for byte in UTF-8.\<close>

definition setup_script_text_2 :: string where
  \<open>setup_script_text_2 = text_lines
    [''echo ""'',
     ''echo "'' @ [CHR 0xE2, CHR 0x9C, CHR 0x85] @ '' Mobile access setup complete!"'',
     ''echo "'' @ [CHR 0xF0, CHR 0x9F, CHR 0x93, CHR 0xB1] @ '' Open http://localhost:8000 in your mobile browser"'',
     ''echo ""'',
     ''echo "Press Ctrl+C to stop the server"'',
     '''',
     ''# Start the mobile server'',
     ''python mobile_server.py'']\<close>

text \<open>Source lines 584 to 646 of the plain string literal \<^verbatim>\<open>mobile_server_content\<close>, byte for byte in UTF-8.\<close>

definition mobile_server_text_1 :: string where
  \<open>mobile_server_text_1 = text_lines
    [''#!/usr/bin/env python3'',
     ''"""'',
     ''Mobile Server for Autonomous Venture Studio'',
     ''IZA OS Ecosystem - Mobile Access'',
     ''"""'',
     '''',
     ''import os'',
     ''import sys'',
     ''from flask import Flask, render_template, jsonify, request'',
     ''from flask_cors import CORS'',
     ''from flask_compress import Compress'',
     ''import json'',
     ''from datetime import datetime'',
     '''',
     ''app = Flask(__name__)'',
     ''CORS(app)'',
     ''Compress(app)'',
     '''',
     ''# Mobile optimization'',
     ''app.config['' @ [CHR 0x27] @ ''COMPRESS_MIMETYPES'' @ [CHR 0x27] @ ''] = ['',
     ''    '' @ [CHR 0x27] @ ''text/html'' @ [CHR 0x27] @ '', '' @ [CHR 0x27] @ ''text/css'' @ [CHR 0x27] @ '', '' @ [CHR 0x27] @ ''text/xml'' @ [CHR 0x27] @ '', '' @ [CHR 0x27] @ ''application/json'' @ [CHR 0x27] @ '','',
     ''    '' @ [CHR 0x27] @ ''application/javascript'' @ [CHR 0x27] @ '', '' @ [CHR 0x27] @ ''text/javascript'' @ [CHR 0x27],
     '']'',
     '''',
     ''@app.route('' @ [CHR 0x27] @ ''/'' @ [CHR 0x27] @ '')'',
     ''def mobile_dashboard():'',
     ''    """Mobile-optimized dashboard."""'',
     ''    return render_template('' @ [CHR 0x27] @ ''mobile_dashboard.html'' @ [CHR 0x27] @ '')'',
     '''',
     ''@app.route('' @ [CHR 0x27] @ ''/api/status'' @ [CHR 0x27] @ '')'',
     ''def api_status():'',
     ''    """API status endpoint."""'',
     ''    return jsonify({'',
     ''        '' @ [CHR 0x27] @ ''status'' @ [CHR 0x27] @ '': '' @ [CHR 0x27] @ ''active'' @ [CHR 0x27] @ '','',
     ''        '' @ [CHR 0x27] @ ''mobile_optimized'' @ [CHR 0x27] @ '': True,'',
     ''        '' @ [CHR 0x27] @ ''ecosystem_value'' @ [CHR 0x27] @ '': 724000000,'',
     ''        '' @ [CHR 0x27] @ ''total_entities'' @ [CHR 0x27] @ '': 730,'',
     ''        '' @ [CHR 0x27] @ ''automation_level'' @ [CHR 0x27] @ '': 95.0,'',
     ''        '' @ [CHR 0x27] @ ''timestamp'' @ [CHR 0x27] @ '': datetime.now().isoformat()'',
     ''    })'',
     '''',
     ''@app.route('' @ [CHR 0x27] @ ''/api/entities'' @ [CHR 0x27] @ '')'',
     ''def api_entities():'',
     ''    """Get all entities."""'',
     ''    return jsonify({'',
     ''        '' @ [CHR 0x27] @ ''business_entities'' @ [CHR 0x27] @ '': 382,'',
     ''        '' @ [CHR 0x27] @ ''frontend_entities'' @ [CHR 0x27] @ '': 26,'',
     ''        '' @ [CHR 0x27] @ ''repository_entities'' @ [CHR 0x27] @ '': 204,'',
     ''        '' @ [CHR 0x27] @ ''mcp_servers'' @ [CHR 0x27] @ '': 5,'',
     ''        '' @ [CHR 0x27] @ ''total'' @ [CHR 0x27] @ '': 730'',
     ''    })'',
     '''',
     ''@app.route('' @ [CHR 0x27] @ ''/api/health'' @ [CHR 0x27] @ '')'',
     ''def api_health():'',
     ''    """Health check endpoint."""'',
     ''    return jsonify({'',
     ''        '' @ [CHR 0x27] @ ''health'' @ [CHR 0x27] @ '': '' @ [CHR 0x27] @ ''excellent'' @ [CHR 0x27] @ '','',
     ''        '' @ [CHR 0x27] @ ''uptime'' @ [CHR 0x27] @ '': '' @ [CHR 0x27] @ ''100%'' @ [CHR 0x27] @ '','',
     ''        '' @ [CHR 0x27] @ ''mobile_ready'' @ [CHR 0x27] @ '': True'',
     ''    })'',
     '''',
     ''if __name__ == '' @ [CHR 0x27] @ ''__main__'' @ [CHR 0x27] @ '':'',
     ''    print("'' @ [CHR 0xF0, CHR 0x9F, CHR 0x8C, CHR 0x90] @ '' Starting Mobile Server for Autonomous Venture Studio")'']\<close>

text \<open>Source lines 647 to 651 of the plain (not formatted) string literal \<^verbatim>\<open>mobile_server_content\<close>: the brace expressions are ordinary characters of the literal.\<close>

definition mobile_server_placeholders :: string where
  \<open>mobile_server_placeholders = text_lines
    [''    print("'' @ [CHR 0xF0, CHR 0x9F, CHR 0x93, CHR 0xB1] @ '' Mobile Dashboard: {CONFIG["URLS"]["MOBILE_DASHBOARD"]}")'',
     ''    print("'' @ [CHR 0xF0, CHR 0x9F, CHR 0x94, CHR 0x97] @ '' API Endpoints: {CONFIG["URLS"]["API_ENDPOINTS"]}")'',
     ''    print("'' @ [CHR 0xF0, CHR 0x9F, CHR 0x93, CHR 0x8A] @ '' Monitoring: {CONFIG["URLS"]["MONITORING"]}")'',
     ''    print("'' @ [CHR 0xF0, CHR 0x9F, CHR 0x94, CHR 0xAC] @ '' Research: {CONFIG["URLS"]["RESEARCH"]}")'',
     ''    print("'' @ [CHR 0xF0, CHR 0x9F, CHR 0x93, CHR 0x9A] @ '' GitHub: {CONFIG["URLS"]["GITHUB"]}")'']\<close>

text \<open>Source lines 652 to 656 of the plain string literal \<^verbatim>\<open>mobile_server_content\<close>, byte for byte in UTF-8.\<close>

definition mobile_server_text_2 :: string where
  \<open>mobile_server_text_2 = text_lines
    [''    print("")'',
     ''    print("'' @ [CHR 0xE2, CHR 0x9C, CHR 0x85] @ '' Mobile access ready!")'',
     ''    '',
     ''    app.run(host='' @ [CHR 0x27] @ ''0.0.0.0'' @ [CHR 0x27] @ '', port=CONFIG["PORTS"]["MOBILE_DASHBOARD"], debug=False)'']\<close>

text \<open>Source lines 746 to 852 of the plain string literal \<^verbatim>\<open>dashboard_template\<close>, byte for byte in UTF-8.\<close>

definition dashboard_template_text_1 :: string where
  \<open>dashboard_template_text_1 = text_lines
    [''<!DOCTYPE html>'',
     ''<html lang="en">'',
     ''<head>'',
     ''    <meta charset="UTF-8">'',
     ''    <meta name="viewport" content="width=device-width, initial-scale=1.0">'',
     ''    <title>IZA OS Ecosystem - Mobile Dashboard</title>'',
     ''    <style>'',
     ''        body {'',
     ''            font-family: -apple-system, BlinkMacSystemFont, '' @ [CHR 0x27] @ ''Segoe UI'' @ [CHR 0x27] @ '', Roboto, sans-serif;'',
     ''            margin: 0;'',
     ''            padding: 20px;'',
     ''            background: linear-gradient(135deg, #667eea 0%, #764ba2 100%);'',
     ''            color: white;'',
     ''            min-height: 100vh;'',
     ''        }'',
     ''        .container {'',
     ''            max-width: 100%;'',
     ''            margin: 0 auto;'',
     ''        }'',
     ''        .header {'',
     ''            text-align: center;'',
     ''            margin-bottom: 30px;'',
     ''        }'',
     ''        .stats-grid {'',
     ''            display: grid;'',
     ''            grid-template-columns: repeat(auto-fit, minmax(150px, 1fr));'',
     ''            gap: 15px;'',
     ''            margin-bottom: 30px;'',
     ''        }'',
     ''        .stat-card {'',
     ''            background: rgba(255, 255, 255, 0.1);'',
     ''            padding: 20px;'',
     ''            border-radius: 10px;'',
     ''            text-align: center;'',
     ''            backdrop-filter: blur(10px);'',
     ''        }'',
     ''        .stat-value {'',
     ''            font-size: 24px;'',
     ''            font-weight: bold;'',
     ''            margin-bottom: 5px;'',
     ''        }'',
     ''        .stat-label {'',
     ''            font-size: 14px;'',
     ''            opacity: 0.8;'',
     ''        }'',
     ''        .quick-actions {'',
     ''            display: grid;'',
     ''            grid-template-columns: repeat(auto-fit, minmax(120px, 1fr));'',
     ''            gap: 15px;'',
     ''            margin-bottom: 30px;'',
     ''        }'',
     ''        .action-btn {'',
     ''            background: rgba(255, 255, 255, 0.2);'',
     ''            border: none;'',
     ''            padding: 15px;'',
     ''            border-radius: 10px;'',
     ''            color: white;'',
     ''            font-size: 14px;'',
     ''            cursor: pointer;'',
     ''            transition: background 0.3s;'',
     ''        }'',
     ''        .action-btn:hover {'',
     ''            background: rgba(255, 255, 255, 0.3);'',
     ''        }'',
     ''        .status-indicator {'',
     ''            display: inline-block;'',
     ''            width: 10px;'',
     ''            height: 10px;'',
     ''            border-radius: 50%;'',
     ''            margin-right: 8px;'',
     ''        }'',
     ''        .status-healthy { background: #4CAF50; }'',
     ''        .status-warning { background: #FF9800; }'',
     ''        .status-critical { background: #F44336; }'',
     ''    </style>'',
     ''</head>'',
     ''<body>'',
     ''    <div class="container">'',
     ''        <div class="header">'',
     ''            <h1>'' @ [CHR 0xF0, CHR 0x9F, CHR 0x9A, CHR 0x80] @ '' IZA OS Ecosystem</h1>'',
     ''            <p>Autonomous Venture Studio - Mobile Dashboard</p>'',
     ''            <p><span class="status-indicator status-healthy"></span>System Status: Active</p>'',
     ''        </div>'',
     ''        '',
     ''        <div class="stats-grid">'',
     ''            <div class="stat-card">'',
     ''                <div class="stat-value">$724M+</div>'',
     ''                <div class="stat-label">Ecosystem Value</div>'',
     ''            </div>'',
     ''            <div class="stat-card">'',
     ''                <div class="stat-value">730+</div>'',
     ''                <div class="stat-label">Total Entities</div>'',
     ''            </div>'',
     ''            <div class="stat-card">'',
     ''                <div class="stat-value">95%</div>'',
     ''                <div class="stat-label">Automation</div>'',
     ''            </div>'',
     ''            <div class="stat-card">'',
     ''                <div class="stat-value">$300M</div>'',
     ''                <div class="stat-label">ARR Potential</div>'',
     ''            </div>'',
     ''        </div>'',
     ''        '',
     ''        <div class="quick-actions">'',
     ''            <button class="action-btn" onclick="window.open('' @ [CHR 0x27] @ ''/api/status'' @ [CHR 0x27] @ '', '' @ [CHR 0x27] @ ''_blank'' @ [CHR 0x27] @ '')">'' @ [CHR 0xF0, CHR 0x9F, CHR 0x93, CHR 0x8A] @ '' Status</button>'',
     ''            <button class="action-btn" onclick="window.open('' @ [CHR 0x27] @ ''/api/entities'' @ [CHR 0x27] @ '', '' @ [CHR 0x27] @ ''_blank'' @ [CHR 0x27] @ '')">'' @ [CHR 0xF0, CHR 0x9F, CHR 0x8F, CHR 0xA2] @ '' Entities</button>'',
     ''            <button class="action-btn" onclick="window.open('' @ [CHR 0x27] @ ''/api/health'' @ [CHR 0x27] @ '', '' @ [CHR 0x27] @ ''_blank'' @ [CHR 0x27] @ '')">'' @ [CHR 0xE2, CHR 0x9D, CHR 0xA4, CHR 0xEF, CHR 0xB8, CHR 0x8F] @ '' Health</button>'']\<close>

text \<open>Source lines 853 to 856 of the plain (not formatted) string literal \<^verbatim>\<open>dashboard_template\<close>: the brace expressions are ordinary characters of the literal.\<close>

definition dashboard_template_placeholders :: string where
  \<open>dashboard_template_placeholders = text_lines
    [''            <button class="action-btn" onclick="window.open('' @ [CHR 0x27] @ ''{CONFIG["URLS"]["API_ENDPOINTS"]}'' @ [CHR 0x27] @ '', '' @ [CHR 0x27] @ ''_blank'' @ [CHR 0x27] @ '')">'' @ [CHR 0xF0, CHR 0x9F, CHR 0x94, CHR 0x97] @ '' API</button>'',
     ''            <button class="action-btn" onclick="window.open('' @ [CHR 0x27] @ ''{CONFIG["URLS"]["MONITORING"]}'' @ [CHR 0x27] @ '', '' @ [CHR 0x27] @ ''_blank'' @ [CHR 0x27] @ '')">'' @ [CHR 0xF0, CHR 0x9F, CHR 0x93, CHR 0x88] @ '' Monitor</button>'',
     ''            <button class="action-btn" onclick="window.open('' @ [CHR 0x27] @ ''{CONFIG["URLS"]["RESEARCH"]}'' @ [CHR 0x27] @ '', '' @ [CHR 0x27] @ ''_blank'' @ [CHR 0x27] @ '')">'' @ [CHR 0xF0, CHR 0x9F, CHR 0x94, CHR 0xAC] @ '' Research</button>'',
     ''            <button class="action-btn" onclick="window.open('' @ [CHR 0x27] @ ''{CONFIG["URLS"]["GITHUB"]}'' @ [CHR 0x27] @ '', '' @ [CHR 0x27] @ ''_blank'' @ [CHR 0x27] @ '')">'' @ [CHR 0xF0, CHR 0x9F, CHR 0x93, CHR 0x9A] @ '' GitHub</button>'']\<close>

text \<open>Source lines 857 to 878 of the plain string literal \<^verbatim>\<open>dashboard_template\<close>, byte for byte in UTF-8.\<close>

definition dashboard_template_text_2 :: string where
  \<open>dashboard_template_text_2 = text_lines
    [''        </div>'',
     ''        '',
     ''        <div class="header">'',
     ''            <h3>'' @ [CHR 0xF0, CHR 0x9F, CHR 0x93, CHR 0xB1] @ '' Mobile Access Ready</h3>'',
     ''            <p>All systems optimized for mobile access</p>'',
     ''        </div>'',
     ''    </div>'',
     ''    '',
     ''    <script>'',
     ''        // Auto-refresh status every 30 seconds'',
     ''        setInterval(async () => {'',
     ''            try {'',
     ''                const response = await fetch('' @ [CHR 0x27] @ ''/api/status'' @ [CHR 0x27] @ '');'',
     ''                const data = await response.json();'',
     ''                console.log('' @ [CHR 0x27] @ ''Status updated:'' @ [CHR 0x27] @ '', data);'',
     ''            } catch (error) {'',
     ''                console.error('' @ [CHR 0x27] @ ''Status check failed:'' @ [CHR 0x27] @ '', error);'',
     ''            }'',
     ''        }, 30000);'',
     ''    </script>'',
     ''</body>'']
    @ ''</html>''\<close>

text \<open>Static text number 1 of the formatted string literal \<^verbatim>\<open>instructions\<close> that starts on source line 904.\<close>

definition instructions_text_1 :: string where
  \<open>instructions_text_1 = text_lines
    [''# Mobile Access Setup Instructions'',
     '''',
     ''## Autonomous Venture Studio - IZA OS Ecosystem'',
     '''',
     ''### Quick Setup (Mobile)'',
     '''',
     ''1. **Clone Repository**'',
     ''   ```bash'']
    @ ''   git clone https://github.com/''\<close>

text \<open>Static text number 4 of the formatted string literal \<^verbatim>\<open>instructions\<close> that starts on source line 904.\<close>

definition instructions_text_4 :: string where
  \<open>instructions_text_4 = text_lines
    ['''',
     ''   ```'',
     '''',
     ''2. **Install Dependencies**'',
     ''   ```bash'',
     ''   pip install -r requirements.txt'',
     ''   ```'',
     '''',
     ''3. **Run Mobile Setup**'',
     ''   ```bash'',
     ''   chmod +x mobile_setup.sh'',
     ''   ./mobile_setup.sh'',
     ''   ```'',
     '''',
     ''4. **Access Mobile Dashboard**'',
     ''   - Open http://localhost:8000 in your mobile browser'',
     ''   - All features optimized for mobile access'',
     '''',
     ''### Mobile Access Points'',
     '''']
    @ ''- **Main Dashboard**: ''\<close>

text \<open>Static text number 9 of the formatted string literal \<^verbatim>\<open>instructions\<close> that starts on source line 904.\<close>

definition instructions_text_9 :: string where
  \<open>instructions_text_9 = text_lines
    ['''',
     '''',
     ''### Mobile Features'',
     '''',
     [CHR 0xE2, CHR 0x9C, CHR 0x85] @ '' Responsive design for all screen sizes  '',
     [CHR 0xE2, CHR 0x9C, CHR 0x85] @ '' Touch-friendly interface  '',
     [CHR 0xE2, CHR 0x9C, CHR 0x85] @ '' Offline functionality  '',
     [CHR 0xE2, CHR 0x9C, CHR 0x85] @ '' Push notifications  '',
     [CHR 0xE2, CHR 0x9C, CHR 0x85] @ '' Mobile-optimized API  '',
     [CHR 0xE2, CHR 0x9C, CHR 0x85] @ '' Compressed data transfer  '',
     [CHR 0xE2, CHR 0x9C, CHR 0x85] @ '' Mobile caching  '',
     '''',
     ''### Ecosystem Overview'',
     '''',
     ''- **Total Value**: $724M+'',
     ''- **Entities**: 730+'',
     ''- **Automation**: 95%'',
     ''- **Revenue Potential**: $300M ARR'',
     ''- **Mobile Ready**: '' @ [CHR 0xE2, CHR 0x9C, CHR 0x85],
     '''',
     ''### Support'',
     '''',
     ''For mobile access support, see `docs/mobile_setup.md`'',
     '''',
     ''---'',
     ''**Mobile Access Enabled** '' @ [CHR 0xE2, CHR 0x9C, CHR 0x85]]\<close>

subsection \<open>Contents\<close>

text \<open>The dictionary \<^verbatim>\<open>subdirectories\<close> (lines 162 to 175), in insertion order.\<close>

definition subdirectories :: "(string \<times> string) list" where
  "subdirectories =
     [(''core/'', ''Core autonomous venture studio components''),
      (''businesses/'', ''Business entity implementations and configurations''),
      (''integrations/'', ''External system integrations and APIs''),
      (''dashboards/'', ''Monitoring and control dashboards''),
      (''research/'', ''Research processing components and data''),
      (''mobile/'', ''Mobile-specific optimizations and configurations''),
      (''api/'', ''REST API endpoints and services''),
      (''docs/'', ''Documentation and setup guides''),
      (''scripts/'', ''Automation and deployment scripts''),
      (''config/'', ''Configuration files and settings''),
      (''data/'', ''Data storage and processing''),
      (''logs/'', ''System logs and monitoring data'')]"

text \<open>The formatted literal of lines 183 to 207: the README of one directory.\<close>

definition dir_readme_content :: "string \<Rightarrow> string \<Rightarrow> string" where
  "dir_readme_content dir_name description =
     ''# '' @ title dir_name @ [nl, nl] @ description @ dir_readme_text_3
     @ dir_name @ dir_readme_text_4"

text \<open>
  The formatted literal of lines 234 to 343, the root README. Its replacement fields are
  evaluated from left to right; a missing key of \<open>cfg\<close> raises \<^verbatim>\<open>KeyError\<close> and no text is
  produced.
\<close>

definition readme_content :: "config \<Rightarrow> manager \<Rightarrow> exn + string" where
  "readme_content cfg self =
     e_bind (fmt cfg ''URLS'' ''MOBILE_DASHBOARD'') (\<lambda>u1.
     e_bind (fmt cfg ''URLS'' ''API_ENDPOINTS'') (\<lambda>u2.
     e_bind (fmt cfg ''URLS'' ''MONITORING'') (\<lambda>u3.
     e_bind (fmt cfg ''URLS'' ''RESEARCH'') (\<lambda>u4.
     e_bind (fmt cfg ''URLS'' ''GITHUB'') (\<lambda>u5.
     e_bind (fmt cfg ''URLS'' ''MOBILE_DASHBOARD'') (\<lambda>u6.
     e_bind (fmt cfg ''URLS'' ''API_ENDPOINTS'') (\<lambda>u7.
       Inr (readme_text_1 @ py_str (github_username self) @ ''/'' @ py_str (main_repo_name self)
            @ ''.git'' @ [nl] @ ''cd '' @ py_str (main_repo_name self)
            @ readme_text_4 @ u1
            @ '' (Mobile Optimized)'' @ [nl] @ ''- **API Endpoints**: '' @ u2
            @ [nl] @ ''- **Monitoring**: '' @ u3
            @ [nl] @ ''- **Research**: '' @ u4
            @ [nl] @ ''- **GitHub Integration**: '' @ u5
            @ readme_text_9 @ u6
            @ [nl, nl] @ ''# Access mobile API'' @ [nl] @ ''curl '' @ u7
            @ readme_text_11))))))))"

text \<open>
  The plain literals. They are not formatted literals (no \<^verbatim>\<open>f\<close> prefix), so their text does
  not depend on the configuration and the brace expressions in them are written to the
  file as they stand.
\<close>

definition requirements_content :: string where
  "requirements_content = requirements_text_1"

definition mobile_docs_content :: string where
  "mobile_docs_content = mobile_docs_text_1 @ mobile_docs_placeholders @ mobile_docs_text_2"

definition setup_script_content :: string where
  "setup_script_content = setup_script_text_1 @ setup_script_placeholders @ setup_script_text_2"

definition mobile_server_content :: string where
  "mobile_server_content = mobile_server_text_1 @ mobile_server_placeholders @ mobile_server_text_2"

definition dashboard_template :: string where
  "dashboard_template =
     dashboard_template_text_1 @ dashboard_template_placeholders @ dashboard_template_text_2"

text \<open>
  The dictionary \<^verbatim>\<open>dashboard_config\<close> (lines 684 to 729). The entries are evaluated in
  order, the clock last.
\<close>

definition dashboard_config :: "config \<Rightarrow> env \<Rightarrow> json io" where
  "dashboard_config cfg env =
     io_bind (io_lift (CONFIG_get cfg ''PORTS'' ''MOBILE_DASHBOARD'')) (\<lambda>p_dashboard.
     io_bind (io_lift (CONFIG_get cfg ''PORTS'' ''API_ENDPOINTS'')) (\<lambda>p_api.
     io_bind (io_lift (CONFIG_get cfg ''PORTS'' ''MONITORING'')) (\<lambda>p_monitoring.
     io_bind (io_lift (CONFIG_get cfg ''PORTS'' ''RESEARCH'')) (\<lambda>p_research.
     io_bind (io_lift (CONFIG_get cfg ''PORTS'' ''GITHUB'')) (\<lambda>p_github.
     io_bind (io_lift (CONFIG_get cfg ''PORTS'' ''START_PORT'')) (\<lambda>p_start.
     io_bind (io_lift (CONFIG_get cfg ''PORTS'' ''END_PORT'')) (\<lambda>p_end.
     io_bind (io_lift (CONFIG_get cfg ''PORTS'' ''TOTAL_PORTS'')) (\<lambda>p_total.
     io_bind (datetime_now env) (\<lambda>now.
       io_return (JObj
         [(''mobile_dashboard'', JObj
             [(''enabled'', JBool True),
              (''port'', to_json p_dashboard),
              (''mobile_optimized'', JBool True),
              (''responsive_design'', JBool True),
              (''touch_friendly'', JBool True)]),
          (''api_endpoints'', JObj
             [(''main_api'', JObj
                 [(''port'', to_json p_api),
                  (''mobile_optimized'', JBool True),
                  (''compression'', JBool True),
                  (''caching'', JBool True)]),
              (''monitoring'', JObj
                 [(''port'', to_json p_monitoring),
                  (''mobile_dashboard'', JBool True),
                  (''real_time_updates'', JBool True)]),
              (''research'', JObj
                 [(''port'', to_json p_research),
                  (''mobile_access'', JBool True),
                  (''offline_support'', JBool True)]),
              (''github'', JObj
                 [(''port'', to_json p_github),
                  (''mobile_interface'', JBool True),
                  (''repository_access'', JBool True)])]),
          (''mobile_features'', JObj
             [(''offline_support'', JBool True),
              (''push_notifications'', JBool True),
              (''mobile_api'', JBool True),
              (''responsive_images'', JBool True),
              (''touch_gestures'', JBool True)]),
          (''port_range'', JObj
             [(''start'', to_json p_start),
              (''end'', to_json p_end),
              (''total_ports'', to_json p_total),
              (''mobile_allocated'', JBool True)]),
          (''created_at'', JStr (isoformat now))]))))))))))"

text \<open>The formatted literal of lines 904 to 963, the setup instructions.\<close>

definition instructions_content :: "config \<Rightarrow> manager \<Rightarrow> exn + string" where
  "instructions_content cfg self =
     e_bind (fmt cfg ''URLS'' ''MOBILE_DASHBOARD'') (\<lambda>u1.
     e_bind (fmt cfg ''URLS'' ''API_ENDPOINTS'') (\<lambda>u2.
     e_bind (fmt cfg ''URLS'' ''MONITORING'') (\<lambda>u3.
     e_bind (fmt cfg ''URLS'' ''RESEARCH'') (\<lambda>u4.
     e_bind (fmt cfg ''URLS'' ''GITHUB'') (\<lambda>u5.
       Inr (instructions_text_1 @ py_str (github_username self) @ ''/''
            @ py_str (main_repo_name self) @ ''.git'' @ [nl] @ ''   cd ''
            @ py_str (main_repo_name self)
            @ instructions_text_4 @ u1
            @ [nl] @ ''- **API Endpoints**: '' @ u2
            @ [nl] @ ''- **Monitoring**: '' @ u3
            @ [nl] @ ''- **Research**: '' @ u4
            @ [nl] @ ''- **GitHub Integration**: '' @ u5
            @ instructions_text_9))))))"

section \<open>The methods\<close>

text \<open>The body of the loop of lines 177 to 222, for one entry of \<^verbatim>\<open>subdirectories\<close>.\<close>

definition expand_entry :: "env \<Rightarrow> path \<Rightarrow> string \<times> string \<Rightarrow> unit io" where
  "expand_entry env repo_path entry =
     (let dir_name = fst entry;
          description = snd entry;
          dir_path = path_div repo_path dir_name;
          readme_path = path_div dir_path ''README.md'';
          gitkeep_path = path_div dir_path ''.gitkeep''
      in io_seq (mkdir_p env dir_path)
          (io_seq (atomic_write env readme_path (dir_readme_content dir_name description))
            (touch env gitkeep_path)))"

fun expand_loop :: "env \<Rightarrow> path \<Rightarrow> (string \<times> string) list \<Rightarrow> unit io" where
  "expand_loop env repo_path [] = io_return ()"
| "expand_loop env repo_path (entry # entries) =
     io_seq (expand_entry env repo_path entry) (expand_loop env repo_path entries)"

text \<open>
  Each of the methods below is one \<^verbatim>\<open>try\<close> statement whose handler logs the exception. The
  block of the \<^verbatim>\<open>try\<close> is given a name of its own (\<open>..._steps\<close>), so that a statement can
  tell what the block did from what the method makes of it.
\<close>

definition subdirectory_structure_steps :: "env \<Rightarrow> path \<Rightarrow> unit io" where
  "subdirectory_structure_steps env repo_path =
     io_seq (logger_info ''Creating recommended subdirectory structure'')
       (io_seq (expand_loop env repo_path subdirectories)
         (logger_info ''Created recommended subdirectory structure''))"

definition create_recommended_subdirectory_structure :: "env \<Rightarrow> path \<Rightarrow> unit io" where
  "create_recommended_subdirectory_structure env repo_path =
     except_Exception (subdirectory_structure_steps env repo_path)
       (\<lambda>e. logger_error ''Error creating subdirectory structure'' e)"

definition mobile_readme_steps :: "config \<Rightarrow> env \<Rightarrow> manager \<Rightarrow> path \<Rightarrow> unit io" where
  "mobile_readme_steps cfg env self repo_path =
     io_seq (logger_info ''Creating mobile-optimized README'')
       (io_bind (io_lift (readme_content cfg self)) (\<lambda>content.
         io_seq (atomic_write env (path_div repo_path ''README.md'') content)
           (logger_info ''Created mobile-optimized README'')))"

definition create_mobile_readme :: "config \<Rightarrow> env \<Rightarrow> manager \<Rightarrow> path \<Rightarrow> unit io" where
  "create_mobile_readme cfg env self repo_path =
     except_Exception (mobile_readme_steps cfg env self repo_path)
       (\<lambda>e. logger_error ''Error creating mobile README'' e)"

definition mobile_requirements_steps :: "env \<Rightarrow> path \<Rightarrow> unit io" where
  "mobile_requirements_steps env repo_path =
     io_seq (logger_info ''Creating mobile requirements'')
       (io_seq (atomic_write env (path_div repo_path ''requirements.txt'') requirements_content)
         (let mobile_docs_path = path_div (path_div repo_path ''docs'') ''mobile_setup.md'' in
          io_seq (mkdir_p env (parent mobile_docs_path))
            (io_seq (atomic_write env mobile_docs_path mobile_docs_content)
              (logger_info ''Created mobile requirements and documentation''))))"

definition create_mobile_requirements :: "env \<Rightarrow> path \<Rightarrow> unit io" where
  "create_mobile_requirements env repo_path =
     except_Exception (mobile_requirements_steps env repo_path)
       (\<lambda>e. logger_error ''Error creating mobile requirements'' e)"

definition mobile_setup_script_steps :: "env \<Rightarrow> path \<Rightarrow> unit io" where
  "mobile_setup_script_steps env repo_path =
     io_seq (logger_info ''Creating mobile setup script'')
       (let setup_path = path_div repo_path ''mobile_setup.sh'' in
        io_seq (atomic_write env setup_path setup_script_content)
          (io_seq (os_chmod env setup_path)
            (let mobile_server_path = path_div repo_path ''mobile_server.py'' in
             io_seq (atomic_write env mobile_server_path mobile_server_content)
               (io_seq (os_chmod env mobile_server_path)
                 (logger_info ''Created mobile setup and server scripts'')))))"

definition create_mobile_setup_script :: "env \<Rightarrow> path \<Rightarrow> unit io" where
  "create_mobile_setup_script env repo_path =
     except_Exception (mobile_setup_script_steps env repo_path)
       (\<lambda>e. logger_error ''Error creating mobile setup script'' e)"

definition mobile_dashboard_config_steps :: "config \<Rightarrow> env \<Rightarrow> path \<Rightarrow> unit io" where
  "mobile_dashboard_config_steps cfg env repo_path =
     io_seq (logger_info ''Setting up mobile dashboard configuration'')
       (io_bind (dashboard_config cfg env) (\<lambda>config_dict.
         let config_path = path_div (path_div repo_path ''config'') ''mobile_dashboard_config.json'' in
         io_seq (mkdir_p env (parent config_path))
           (io_seq (atomic_write env config_path (json_dumps 0 config_dict))
             (let template_path = path_div (path_div repo_path ''templates'') ''mobile_dashboard.html'' in
              io_seq (mkdir_p env (parent template_path))
                (io_seq (atomic_write env template_path dashboard_template)
                  (logger_info ''Set up mobile dashboard configuration''))))))"

definition create_mobile_dashboard_config :: "config \<Rightarrow> env \<Rightarrow> path \<Rightarrow> unit io" where
  "create_mobile_dashboard_config cfg env repo_path =
     except_Exception (mobile_dashboard_config_steps cfg env repo_path)
       (\<lambda>e. logger_error ''Error setting up mobile dashboard config'' e)"

definition remote_url :: "manager \<Rightarrow> string" where
  "remote_url self =
     ''https://github.com/'' @ py_str (github_username self) @ ''/''
     @ py_str (main_repo_name self) @ ''.git''"

text \<open>
  \<^verbatim>\<open>create_main_github_repository\<close> (lines 111 to 154) is one \<^verbatim>\<open>try\<close> statement. Its block is
  \<open>main_repository_steps\<close>; the handler logs the exception and returns \<^verbatim>\<open>False\<close>.
\<close>

definition main_repository_steps :: "config \<Rightarrow> env \<Rightarrow> manager \<Rightarrow> bool io" where
  "main_repository_steps cfg env self =
     io_seq (logger_info (''Creating main GitHub repository: '' @ py_str (main_repo_name self)))
    (io_seq (mkdir_p env (mobile_dir self))
    (io_bind (io_lift (path_div_val (mobile_dir self) (main_repo_name self))) (\<lambda>main_repo_path.
     io_seq (mkdir_p env main_repo_path)
    (io_seq (subprocess_run env main_repo_path Git_init)
    (io_seq (create_recommended_subdirectory_structure env main_repo_path)
    (io_seq (create_mobile_readme cfg env self main_repo_path)
    (io_seq (create_mobile_requirements env main_repo_path)
    (io_seq (create_mobile_setup_script env main_repo_path)
    (io_seq (create_mobile_dashboard_config cfg env main_repo_path)
    (io_seq (subprocess_run env main_repo_path Git_add_all)
    (io_seq (subprocess_run env main_repo_path
               (Git_commit ''Initial commit - Mobile Access Setup''))
    (io_seq (subprocess_run env main_repo_path (Git_remote_add ''origin'' (remote_url self)))
    (io_seq (logger_info (''Created main repository structure: '' @ str_path main_repo_path))
      (io_return True))))))))))))))"

definition create_main_github_repository :: "config \<Rightarrow> env \<Rightarrow> manager \<Rightarrow> bool io" where
  "create_main_github_repository cfg env self =
     except_Exception (main_repository_steps cfg env self)
       (\<lambda>e. io_seq (logger_error ''Error creating main GitHub repository'' e) (io_return False))"

definition generate_mobile_setup_instructions :: "config \<Rightarrow> env \<Rightarrow> manager \<Rightarrow> string io" where
  "generate_mobile_setup_instructions cfg env self =
     except_Exception
       (io_seq (logger_info ''Generating mobile setup instructions'')
         (io_bind (io_lift (instructions_content cfg self)) (\<lambda>instructions.
           io_seq (atomic_write env (path_div (mobile_dir self) ''MOBILE_SETUP_INSTRUCTIONS.md'')
                     instructions)
             (io_seq (logger_info ''Generated mobile setup instructions'')
               (io_return instructions)))))
       (\<lambda>e. io_seq (logger_error ''Error generating mobile setup instructions'' e) (io_return []))"

text \<open>\<^verbatim>\<open>generate_mobile_completion_report\<close> (lines 985 to 1028): a dictionary literal.\<close>

definition generate_mobile_completion_report :: "config \<Rightarrow> env \<Rightarrow> manager \<Rightarrow> json io" where
  "generate_mobile_completion_report cfg env self =
     io_bind (datetime_now env) (\<lambda>now.
     io_bind (io_lift (CONFIG_get cfg ''URLS'' ''MOBILE_DASHBOARD'')) (\<lambda>u_dashboard.
     io_bind (io_lift (CONFIG_get cfg ''URLS'' ''API_ENDPOINTS'')) (\<lambda>u_api.
     io_bind (io_lift (CONFIG_get cfg ''URLS'' ''MONITORING'')) (\<lambda>u_monitoring.
     io_bind (io_lift (CONFIG_get cfg ''URLS'' ''RESEARCH'')) (\<lambda>u_research.
     io_bind (io_lift (CONFIG_get cfg ''URLS'' ''GITHUB'')) (\<lambda>u_github.
     io_bind (io_lift (CONFIG_get cfg ''PORTS'' ''START_PORT'')) (\<lambda>p_start.
     io_bind (io_lift (CONFIG_get cfg ''PORTS'' ''END_PORT'')) (\<lambda>p_end.
     io_bind (io_lift (CONFIG_get cfg ''PORTS'' ''TOTAL_PORTS'')) (\<lambda>p_total.
     io_bind (io_lift (path_div_val (mobile_dir self) (main_repo_name self))) (\<lambda>local_path.
       io_return (JObj
         [(''timestamp'', JStr (isoformat now)),
          (''mobile_access_enabled'', JBool True),
          (''main_repository_created'', JBool True),
          (''subdirectory_structure'', JBool True),
          (''mobile_optimization'', JBool True),
          (''dashboard_access'', JBool True),
          (''api_endpoints'', JBool True),
          (''mobile_features'', JObj
             [(''responsive_design'', JBool True),
              (''touch_friendly'', JBool True),
              (''offline_support'', JBool True),
              (''push_notifications'', JBool True),
              (''mobile_api'', JBool True),
              (''compression'', JBool True),
              (''caching'', JBool True)]),
          (''access_points'', JObj
             [(''main_dashboard'', to_json u_dashboard),
              (''api_endpoints'', to_json u_api),
              (''monitoring'', to_json u_monitoring),
              (''research'', to_json u_research),
              (''github'', to_json u_github)]),
          (''port_allocation'', JObj
             [(''start_port'', to_json p_start),
              (''end_port'', to_json p_end),
              (''total_ports'', to_json p_total),
              (''mobile_allocated'', JBool True)]),
          (''repository_info'', JObj
             [(''name'', to_json (main_repo_name self)),
              (''github_url'', JStr (''https://github.com/'' @ py_str (github_username self)
                                    @ ''/'' @ py_str (main_repo_name self))),
              (''local_path'', JStr (str_path local_path)),
              (''mobile_ready'', JBool True)]),
          (''next_steps'', JList
             [JStr ''Execute Complete Integration Resolution'',
              JStr ''Final System Verification'',
              JStr ''Mobile Access Testing''])])))))))))))"

text \<open>\<^verbatim>\<open>execute_mobile_access_setup\<close> (lines 1030 to 1058). The value returned by
  \<^verbatim>\<open>create_main_github_repository\<close> is not used.\<close>

definition execute_mobile_access_setup :: "config \<Rightarrow> env \<Rightarrow> manager \<Rightarrow> json io" where
  "execute_mobile_access_setup cfg env self =
     io_seq (logger_info ''Starting Mobile Access Setup Manager'')
       (except_Exception
          (io_seq (create_main_github_repository cfg env self)
          (io_seq (generate_mobile_setup_instructions cfg env self)
          (io_bind (generate_mobile_completion_report cfg env self) (\<lambda>report.
           io_seq (logger_info ''Mobile Access Setup executed successfully'')
          (io_seq (logger_info (''Created main repository: '' @ py_str (main_repo_name self)))
          (io_seq (logger_info ''Mobile access enabled for all 730+ entities'')
          (io_bind (io_lift (fmt cfg ''URLS'' ''MOBILE_DASHBOARD'')) (\<lambda>url.
           io_seq (logger_info (''Dashboard accessible at '' @ url))
             (io_return report)))))))))
          (\<lambda>e. io_seq (logger_error ''Error during mobile access setup'' e)
                 (io_bind (datetime_now env) (\<lambda>now.
                    io_return (JObj
                      [(''timestamp'', JStr (isoformat now)),
                       (''status'', JStr ''error''),
                       (''error'', JStr (str_exn e)),
                       (''mobile_access_status'', JStr ''failed'')])))))"

section \<open>Predicates of the statements\<close>

text \<open>The path of the temporary file that the next atomic write creates.\<close>

definition next_temp :: "env \<Rightarrow> world \<Rightarrow> path" where
  "next_temp env w = tmpdir env @ [tmp_name env (tmp_counter w)]"

text \<open>The failure, if any, of writing the content into the temporary file \<open>p\<close>: of
  \<^verbatim>\<open>write\<close>, or else of \<^verbatim>\<open>close\<close>.\<close>

definition write_failure :: "env \<Rightarrow> path \<Rightarrow> exn option" where
  "write_failure env p =
     (case fault env (Op_write p) of Some e \<Rightarrow> Some e | None \<Rightarrow> fault env (Op_close p))"

text \<open>Every failure the operating system answers with is an instance of \<^verbatim>\<open>Exception\<close>.\<close>

definition exceptions_only :: "env \<Rightarrow> bool" where
  "exceptions_only env = (\<forall>op e. fault env op = Some e \<longrightarrow> is_Exception e)"

text \<open>A statement that raises instances of \<^verbatim>\<open>Exception\<close> only; a value whose error, if it is
  one, is an instance of \<^verbatim>\<open>Exception\<close>; a statement that always returns normally.\<close>

definition safe :: "'a io \<Rightarrow> bool" where
  "safe m = (\<forall>w e w'. m w = (Inl e, w') \<longrightarrow> is_Exception e)"

definition pure_safe :: "exn + 'a \<Rightarrow> bool" where
  "pure_safe r = (\<forall>e. r = Inl e \<longrightarrow> is_Exception e)"

definition returns :: "'a io \<Rightarrow> bool" where
  "returns m = (\<forall>w. \<exists>x w'. m w = (Inr x, w'))"

text \<open>A statement that adds to the trace only events that satisfy \<open>P\<close>; a statement that
  starts no subprocess adds events other than \<open>Ev_run\<close>.\<close>

definition appends :: "(event \<Rightarrow> bool) \<Rightarrow> 'a io \<Rightarrow> bool" where
  "appends P m = (\<forall>w r w'. m w = (r, w') \<longrightarrow>
     (\<exists>evs. trace w' = trace w @ evs \<and> list_all P evs))"

fun is_run :: "event \<Rightarrow> bool" where
  "is_run (Ev_run cwd cmd) = True"
| "is_run _ = False"

definition quiet :: "'a io \<Rightarrow> bool" where
  "quiet m = appends (\<lambda>ev. \<not> is_run ev) m"

text \<open>
  A subprocess that is started without failure and exits with status 0; and the events
  that a statement adds to the trace when it is run in the world \<open>w\<close>.
\<close>

definition run_ok :: "env \<Rightarrow> path \<Rightarrow> git_cmd \<Rightarrow> bool" where
  "run_ok env cwd cmd = (fault env (Op_run cwd cmd) = None \<and> exit_status env cwd cmd = 0)"

definition attempted :: "'a io \<Rightarrow> world \<Rightarrow> event list" where
  "attempted m w = drop (length (trace w)) (trace (snd (m w)))"

text \<open>
  The conditions of an undisturbed run below a root directory. No operation fails; the
  names of the temporary files are free and lie outside the tree below the root; the root
  and the directories above it exist.
\<close>

definition tmp_path :: "env \<Rightarrow> nat \<Rightarrow> path" where
  "tmp_path env n = tmpdir env @ [tmp_name env n]"

definition temp_free :: "env \<Rightarrow> path \<Rightarrow> world \<Rightarrow> bool" where
  "temp_free env root w =
     (\<forall>n. files w (tmp_path env n) = None \<and> tmp_path env n \<notin> dirs w
          \<and> \<not> prefix root (tmp_path env n))"

definition root_ready :: "path \<Rightarrow> world \<Rightarrow> bool" where
  "root_ready root w = (\<forall>q \<in> set (prefixes root). q \<in> dirs w \<and> files w q = None)"

definition calm :: "env \<Rightarrow> path \<Rightarrow> world \<Rightarrow> bool" where
  "calm env root w = (fault env = (\<lambda>op. None) \<and> temp_free env root w \<and> root_ready root w)"

text \<open>
  Entries whose names are a single path component; a world in which no regular file is
  where an entry's directory goes and no directory where its README goes; the effect of
  one undisturbed pass of the loop body on the tree (the directories, and the files with
  their bytes); and a tree on which this pass changes nothing.
\<close>

definition flat :: "(string \<times> string) list \<Rightarrow> bool" where
  "flat entries = (\<forall>e \<in> set entries. length (parts (fst e)) = 1)"

definition expandable :: "path \<Rightarrow> (string \<times> string) list \<Rightarrow> world \<Rightarrow> bool" where
  "expandable root entries w =
     (\<forall>e \<in> set entries. files w (path_div root (fst e)) = None
        \<and> path_div (path_div root (fst e)) ''README.md'' \<notin> dirs w)"

definition entry_effect ::
  "path \<Rightarrow> string \<times> string \<Rightarrow> path set \<times> (path \<rightharpoonup> string) \<Rightarrow> path set \<times> (path \<rightharpoonup> string)" where
  "entry_effect root entry t =
     (let d = path_div root (fst entry);
          r = path_div d ''README.md'';
          g = path_div d ''.gitkeep'';
          D = fst t \<union> set (prefixes d);
          F = (snd t)(r \<mapsto> dir_readme_content (fst entry) (snd entry))
      in (D, if F g = None \<and> g \<notin> D then F(g \<mapsto> []) else F))"

definition settled :: "path \<Rightarrow> string \<times> string \<Rightarrow> path set \<times> (path \<rightharpoonup> string) \<Rightarrow> bool" where
  "settled root entry t =
     (let d = path_div root (fst entry);
          r = path_div d ''README.md'';
          g = path_div d ''.gitkeep''
      in set (prefixes d) \<subseteq> fst t
         \<and> snd t r = Some (dir_readme_content (fst entry) (snd entry))
         \<and> (case snd t g of Some b \<Rightarrow> True | None \<Rightarrow> g \<in> fst t))"

section \<open>Concrete inputs\<close>

text \<open>
  A well-behaved environment (every directory on one filesystem, no operation fails, every
  command exits with status 0), an empty world with the directory of temporary files, and
  the same world with a directory \<^verbatim>\<open>/repo\<close>.
\<close>

definition env0 :: env where
  "env0 = \<lparr>tmpdir = [''tmp''],
            tmp_name = (\<lambda>n. ''tmp'' @ str_nat n @ ''.tmp''),
            device = (\<lambda>_. 0),
            fault = (\<lambda>_. None),
            flushed = (\<lambda>_. 0),
            exit_status = (\<lambda>_ _. 0),
            clock = (\<lambda>n. \<lparr>year = 2025, month = 9, day = 1, hour = 12, minute = 0,
                           second = n, microsecond = 0\<rparr>)\<rparr>"

definition world0 :: world where
  "world0 = \<lparr>dirs = {[], [''tmp'']}, files = Map.empty, executable = {}, tmp_counter = 0,
              ticks = 0, trace = [], log = []\<rparr>"

definition w_repo :: world where
  "w_repo = world0\<lparr>dirs := {[], [''tmp''], [''repo'']}\<rparr>"

text \<open>The manager that \<^verbatim>\<open>MobileAccessSetupManager()\<close> builds from \<open>CONFIG\<close> when the module
  lies in \<^verbatim>\<open>/home\<close>, and the repository path it uses.\<close>

definition manager0 :: manager where
  "manager0 = \<lparr>base_path = [''home''],
     completion_analysis = [''home'', ''100_percent_completion_analysis.json''],
     github_instructions = [''home'', ''GITHUB_SETUP_INSTRUCTIONS.md''],
     mobile_dir = [''home'', ''mobile_repositories''],
     log_file = [''home'', ''mobile_access_setup.log''],
     setup_complete = False,
     github_username = CStr ''worldwidebro'',
     main_repo_name = CStr ''iza-os-ecosystem''\<rparr>"

definition repo0 :: path where
  "repo0 = [''home'', ''mobile_repositories'', ''iza-os-ecosystem'']"

text \<open>The first statements of the block, run in the empty world: the two directories are
  created and the version-control \<^verbatim>\<open>init\<close> has exited with status 0.\<close>

definition world_after_init :: world where
  "world_after_init = world0\<lparr>
     dirs := {[], [''tmp''], [''home''], [''home'', ''mobile_repositories''], repo0},
     trace := [Ev_mkdir [''home'', ''mobile_repositories''], Ev_mkdir repo0, Ev_run repo0 Git_init],
     log := [Log_info ''Creating main GitHub repository: iza-os-ecosystem'']\<rparr>"

text \<open>The disk is full when the first temporary file is written: two bytes reach it.\<close>

definition env_disk_full :: env where
  "env_disk_full = env0\<lparr>
     fault := (\<lambda>op. if op = Op_write [''tmp'', ''tmp0.tmp'']
                     then Some (OSError ''No space left on device'') else None),
     flushed := (\<lambda>_. 2)\<rparr>"

text \<open>The user interrupts the program while the first temporary file is written.\<close>

definition env_interrupt :: env where
  "env_interrupt = env0\<lparr>
     fault := (\<lambda>op. if op = Op_write [''tmp'', ''tmp0.tmp''] then Some KeyboardInterrupt else None),
     flushed := (\<lambda>_. 2)\<rparr>"

text \<open>The directory of temporary files is on a filesystem of its own, as a
  \<^verbatim>\<open>tmpfs\<close> mounted on \<^verbatim>\<open>/tmp\<close> is; and the same with a disk that fills up during the copy.\<close>

definition env_tmpfs :: env where
  "env_tmpfs = env0\<lparr>device := (\<lambda>d. if d = [''tmp''] then 1 else 0)\<rparr>"

definition env_tmpfs_full :: env where
  "env_tmpfs_full = env_tmpfs\<lparr>
     fault := (\<lambda>op. if op = Op_copy [''tmp'', ''tmp0.tmp''] [''repo'', ''README.md'']
                     then Some (OSError ''No space left on device'') else None),
     flushed := (\<lambda>_. 2)\<rparr>"

text \<open>The version-control \<^verbatim>\<open>commit\<close> exits with status 1.\<close>

definition env_commit_fails :: env where
  "env_commit_fails = env0\<lparr>
     exit_status := (\<lambda>cwd cmd. case cmd of Git_commit msg \<Rightarrow> 1 | _ \<Rightarrow> 0)\<rparr>"

text \<open>The same environment as \<open>env0\<close> a year later.\<close>

definition env_later :: env where
  "env_later = env0\<lparr>
     clock := (\<lambda>n. \<lparr>year = 2026, month = 9, day = 1, hour = 12, minute = 0,
                    second = n, microsecond = 0\<rparr>)\<rparr>"

section \<open>Properties\<close>

lemmas cfg_simps = CONFIG_get_def CONFIG_def getitem_def e_bind_def

lemmas io_simps = io_bind_def io_seq_def io_lift_def io_return_def io_raise_def

subsection \<open>The port table\<close>


subsection \<open>Statements that raise instances of Exception only\<close>

lemma map_upd_fresh_removed: "m p = None \<Longrightarrow> (m(p \<mapsto> x))(p := None) = m"
  by (rule ext) simp

lemma str_nat_0: "str_nat 0 = ''0''"
  by code_simp

named_theorems safe_intros
named_theorems appends_intros

lemma safe_return [safe_intros]: "safe (io_return x)"
  by (simp add: safe_def io_return_def)

lemma safe_raise [safe_intros]: "is_Exception e \<Longrightarrow> safe (io_raise e)"
  by (simp add: safe_def io_raise_def)

lemma safe_bind [safe_intros]:
  assumes "safe m" and "\<And>x. safe (f x)"
  shows "safe (io_bind m f)"
  unfolding safe_def io_bind_def
proof (intro allI impI)
  fix w e w'
  assume run: "(case m w of (Inl e, w') \<Rightarrow> (Inl e, w') | (Inr x, w') \<Rightarrow> f x w') = (Inl e, w')"
  obtain r w1 where mw: "m w = (r, w1)" by (cases "m w")
  show "is_Exception e"
  proof (cases r)
    case (Inl e1)
    with run mw have "e1 = e" by simp
    with Inl mw assms(1) show ?thesis by (auto simp: safe_def)
  next
    case (Inr x)
    with run mw have "f x w1 = (Inl e, w')" by simp
    with assms(2) show ?thesis by (auto simp: safe_def)
  qed
qed

lemma safe_seq [safe_intros]: "safe m \<Longrightarrow> safe n \<Longrightarrow> safe (io_seq m n)"
  by (simp add: io_seq_def safe_bind)

lemma safe_except [safe_intros]:
  assumes "safe body" and "\<And>e. is_Exception e \<Longrightarrow> safe (handler e)"
  shows "safe (except_Exception body handler)"
  unfolding safe_def except_Exception_def
proof (intro allI impI)
  fix w e w'
  assume run: "(case body w of (Inl e, w') \<Rightarrow> if is_Exception e then handler e w' else (Inl e, w')
                 | (Inr x, w') \<Rightarrow> (Inr x, w')) = (Inl e, w')"
  obtain r w1 where bw: "body w = (r, w1)" by (cases "body w")
  show "is_Exception e"
  proof (cases r)
    case (Inl e1)
    with bw assms(1) have ex: "is_Exception e1" by (auto simp: safe_def)
    with run bw Inl have "handler e1 w1 = (Inl e, w')" by simp
    with assms(2) [OF ex] show ?thesis by (auto simp: safe_def)
  next
    case (Inr x)
    with run bw show ?thesis by simp
  qed
qed

lemma returns_except:
  assumes "safe body" and "\<And>e. is_Exception e \<Longrightarrow> returns (handler e)"
  shows "returns (except_Exception body handler)"
  unfolding returns_def except_Exception_def
proof
  fix w
  obtain r w1 where bw: "body w = (r, w1)" by (cases "body w")
  show "\<exists>x w'. (case body w of (Inl e, w') \<Rightarrow> if is_Exception e then handler e w' else (Inl e, w')
                 | (Inr x, w') \<Rightarrow> (Inr x, w')) = (Inr x, w')"
  proof (cases r)
    case (Inl e1)
    with bw assms(1) have ex: "is_Exception e1" by (auto simp: safe_def)
    from assms(2) [OF ex] obtain x w' where "handler e1 w1 = (Inr x, w')"
      unfolding returns_def by blast
    with bw Inl ex show ?thesis by simp
  next
    case (Inr x)
    with bw show ?thesis by simp
  qed
qed

lemma returns_logger_error: "returns (logger_error msg e)"
  by (simp add: returns_def logger_error_def)

lemma returns_seq_return: "returns m \<Longrightarrow> returns (io_seq m (io_return x))"
  by (auto simp: returns_def io_seq_def io_bind_def io_return_def split: prod.splits sum.splits)
     (metis Inl_Inr_False Pair_inject)

lemma safe_logger_info [safe_intros]: "safe (logger_info msg)"
  by (simp add: safe_def logger_info_def)

lemma safe_logger_error [safe_intros]: "safe (logger_error msg e)"
  by (simp add: safe_def logger_error_def)

lemma safe_datetime_now [safe_intros]: "safe (datetime_now env)"
  by (simp add: safe_def datetime_now_def)

lemma safe_os_path_exists [safe_intros]: "safe (os_path_exists p)"
  by (simp add: safe_def os_path_exists_def)

lemma safe_mkdir_p [safe_intros]: "exceptions_only env \<Longrightarrow> safe (mkdir_p env p)"
  by (auto simp: safe_def mkdir_p_def exceptions_only_def Let_def split: option.splits if_splits)

lemma mkstemp_inner_raises:
  "exceptions_only env \<Longrightarrow> mkstemp_inner env attempts w = (Inl e, w') \<Longrightarrow> is_Exception e"
  by (induction attempts arbitrary: w)
     (auto simp: exceptions_only_def Let_def split: option.splits if_splits)

lemma safe_named_temporary_file [safe_intros]:
  "exceptions_only env \<Longrightarrow> safe (named_temporary_file env)"
  unfolding safe_def named_temporary_file_def by (blast intro: mkstemp_inner_raises)

lemma safe_file_write [safe_intros]: "exceptions_only env \<Longrightarrow> safe (file_write env p c)"
  by (auto simp: safe_def file_write_def exceptions_only_def split: option.splits)

lemma safe_file_close [safe_intros]: "exceptions_only env \<Longrightarrow> safe (file_close env p)"
  by (auto simp: safe_def file_close_def exceptions_only_def Let_def split: option.splits)

lemma safe_os_unlink [safe_intros]: "exceptions_only env \<Longrightarrow> safe (os_unlink env p)"
  by (auto simp: safe_def os_unlink_def exceptions_only_def Let_def split: option.splits if_splits)

lemma safe_os_rename [safe_intros]: "exceptions_only env \<Longrightarrow> safe (os_rename env src dst)"
  by (auto simp: safe_def os_rename_def exceptions_only_def Let_def split: option.splits if_splits)

lemma safe_copy2 [safe_intros]: "exceptions_only env \<Longrightarrow> safe (copy2 env src dst)"
  by (auto simp: safe_def copy2_def exceptions_only_def Let_def split: option.splits if_splits)

lemma safe_shutil_move [safe_intros]: "exceptions_only env \<Longrightarrow> safe (shutil_move env src dst)"
  unfolding safe_def
proof (intro allI impI)
  fix w e w'
  assume eo: "exceptions_only env" and run: "shutil_move env src dst w = (Inl e, w')"
  define real_dst where "real_dst = (if dst \<in> dirs w then dst @ [basename src] else dst)"
  obtain r1 w1 where rn: "os_rename env src real_dst w = (r1, w1)"
    by (cases "os_rename env src real_dst w")
  have fallback: "safe (io_seq (copy2 env src real_dst) (os_unlink env src))"
    using eo by (intro safe_seq safe_copy2 safe_os_unlink)
  show "is_Exception e"
  proof (cases r1)
    case (Inl e1)
    with rn safe_os_rename [OF eo, of src real_dst] have e1: "is_Exception e1"
      by (auto simp: safe_def)
    from run rn Inl have
      "e = OSError ''Destination path already exists''
       \<or> io_seq (copy2 env src real_dst) (os_unlink env src) w1 = (Inl e, w')
       \<or> e = e1"
      by (auto simp: shutil_move_def os_rename_def copy2_def Let_def real_dst_def [symmetric] split: if_splits)
    with e1 fallback show ?thesis by (auto simp: safe_def)
  next
    case (Inr u)
    with run rn show ?thesis
      by (auto simp: shutil_move_def os_rename_def copy2_def Let_def real_dst_def [symmetric] split: if_splits)
  qed
qed

lemma safe_touch [safe_intros]: "exceptions_only env \<Longrightarrow> safe (touch env p)"
  by (auto simp: safe_def touch_def exceptions_only_def Let_def split: option.splits if_splits)

lemma safe_os_chmod [safe_intros]: "exceptions_only env \<Longrightarrow> safe (os_chmod env p)"
  by (auto simp: safe_def os_chmod_def exceptions_only_def Let_def split: option.splits if_splits)

lemma safe_subprocess_run [safe_intros]: "exceptions_only env \<Longrightarrow> safe (subprocess_run env cwd cmd)"
  by (auto simp: safe_def subprocess_run_def exceptions_only_def Let_def
      split: option.splits if_splits)

lemma safe_atomic_write [safe_intros]: "exceptions_only env \<Longrightarrow> safe (atomic_write env target content)"
  unfolding atomic_write_def
  by (intro safe_intros) (simp_all add: safe_intros)

lemma safe_lift [safe_intros]: "pure_safe r \<Longrightarrow> safe (io_lift r)"
  by (simp add: safe_def io_lift_def pure_safe_def)

lemma pure_safe_e_bind: "pure_safe r \<Longrightarrow> (\<And>x. pure_safe (f x)) \<Longrightarrow> pure_safe (e_bind r f)"
  by (auto simp: pure_safe_def e_bind_def split: sum.splits)

lemma pure_safe_Inr: "pure_safe (Inr x)"
  by (simp add: pure_safe_def)

lemma pure_safe_getitem: "pure_safe (getitem d k)"
  by (simp add: pure_safe_def getitem_def split: option.splits)

lemma pure_safe_CONFIG_get: "pure_safe (CONFIG_get cfg section key)"
  unfolding CONFIG_get_def by (intro pure_safe_e_bind pure_safe_getitem)

lemma pure_safe_fmt: "pure_safe (fmt cfg section key)"
  unfolding fmt_def by (intro pure_safe_e_bind pure_safe_CONFIG_get pure_safe_Inr)

lemma pure_safe_path_div_val: "pure_safe (path_div_val p v)"
  by (cases v) (simp_all add: pure_safe_def)

lemma pure_safe_readme_content: "pure_safe (readme_content cfg self)"
  unfolding readme_content_def by (intro pure_safe_e_bind pure_safe_fmt pure_safe_Inr)

lemma pure_safe_instructions_content: "pure_safe (instructions_content cfg self)"
  unfolding instructions_content_def by (intro pure_safe_e_bind pure_safe_fmt pure_safe_Inr)

lemmas pure_safe_intros = pure_safe_CONFIG_get pure_safe_fmt pure_safe_path_div_val
  pure_safe_readme_content pure_safe_instructions_content

lemma safe_dashboard_config: "safe (dashboard_config cfg env)"
  unfolding dashboard_config_def by (intro safe_intros pure_safe_intros)

lemma safe_expand_entry: "exceptions_only env \<Longrightarrow> safe (expand_entry env p entry)"
  unfolding expand_entry_def Let_def by (intro safe_intros) simp_all

lemma safe_expand_loop: "exceptions_only env \<Longrightarrow> safe (expand_loop env p entries)"
  by (induction entries) (simp_all add: safe_intros safe_expand_entry)

lemma safe_subdirectory_structure_steps:
  "exceptions_only env \<Longrightarrow> safe (subdirectory_structure_steps env p)"
  unfolding subdirectory_structure_steps_def
  by (intro safe_intros safe_expand_loop)

lemma safe_mobile_readme_steps:
  "exceptions_only env \<Longrightarrow> safe (mobile_readme_steps cfg env self p)"
  unfolding mobile_readme_steps_def
  by (intro safe_intros pure_safe_intros) simp_all

lemma safe_mobile_requirements_steps:
  "exceptions_only env \<Longrightarrow> safe (mobile_requirements_steps env p)"
  unfolding mobile_requirements_steps_def Let_def
  by (intro safe_intros) simp_all

lemma safe_mobile_setup_script_steps:
  "exceptions_only env \<Longrightarrow> safe (mobile_setup_script_steps env p)"
  unfolding mobile_setup_script_steps_def Let_def
  by (intro safe_intros) simp_all

lemma safe_mobile_dashboard_config_steps:
  "exceptions_only env \<Longrightarrow> safe (mobile_dashboard_config_steps cfg env p)"
  unfolding mobile_dashboard_config_steps_def Let_def
  by (intro safe_intros safe_dashboard_config) simp_all

lemma returns_create_recommended_subdirectory_structure:
  "exceptions_only env \<Longrightarrow> returns (create_recommended_subdirectory_structure env p)"
  unfolding create_recommended_subdirectory_structure_def
  by (intro returns_except returns_logger_error safe_subdirectory_structure_steps)

lemma returns_create_mobile_readme:
  "exceptions_only env \<Longrightarrow> returns (create_mobile_readme cfg env self p)"
  unfolding create_mobile_readme_def
  by (intro returns_except returns_logger_error safe_mobile_readme_steps)

lemma returns_create_mobile_requirements:
  "exceptions_only env \<Longrightarrow> returns (create_mobile_requirements env p)"
  unfolding create_mobile_requirements_def
  by (intro returns_except returns_logger_error safe_mobile_requirements_steps)

lemma returns_create_mobile_setup_script:
  "exceptions_only env \<Longrightarrow> returns (create_mobile_setup_script env p)"
  unfolding create_mobile_setup_script_def
  by (intro returns_except returns_logger_error safe_mobile_setup_script_steps)

lemma returns_create_mobile_dashboard_config:
  "exceptions_only env \<Longrightarrow> returns (create_mobile_dashboard_config cfg env p)"
  unfolding create_mobile_dashboard_config_def
  by (intro returns_except returns_logger_error safe_mobile_dashboard_config_steps)

lemma returns_generate_mobile_setup_instructions:
  "exceptions_only env \<Longrightarrow> returns (generate_mobile_setup_instructions cfg env self)"
  unfolding generate_mobile_setup_instructions_def
  by (intro returns_except returns_seq_return returns_logger_error safe_intros pure_safe_intros)
     simp_all

lemma returns_safe: "returns m \<Longrightarrow> safe m"
  by (auto simp: returns_def safe_def) (metis Inl_Inr_False fst_conv)

lemma returns_seq: "returns m \<Longrightarrow> \<exists>w'. io_seq m k w = k w'"
  by (auto simp: returns_def io_seq_def io_bind_def split: prod.splits sum.splits)
     (metis Inl_Inr_False fst_conv)



lemma safe_main_repository_steps:
  "exceptions_only env \<Longrightarrow> safe (main_repository_steps cfg env self)"
  unfolding main_repository_steps_def
  by (intro safe_intros pure_safe_intros returns_safe
        returns_create_recommended_subdirectory_structure returns_create_mobile_readme
        returns_create_mobile_requirements returns_create_mobile_setup_script
        returns_create_mobile_dashboard_config) simp_all

lemma returns_create_main_github_repository:
  "exceptions_only env \<Longrightarrow> returns (create_main_github_repository cfg env self)"
  unfolding create_main_github_repository_def
  by (intro returns_except returns_seq_return returns_logger_error safe_main_repository_steps)

lemma next_temp_env_disk_full: "next_temp env_disk_full w_repo = [''tmp'', ''tmp0.tmp'']"
  by (simp add: next_temp_def env_disk_full_def env0_def w_repo_def world0_def str_nat_0)

subsection \<open>The temporary file\<close>

lemma mkstemp_inner_free:
  assumes "fault env (Op_tmp_create (next_temp env w)) = None"
      and "files w (next_temp env w) = None" and "next_temp env w \<notin> dirs w"
  shows "mkstemp_inner env (Suc attempts) w
         = (Inr (next_temp env w),
            w\<lparr>tmp_counter := Suc (tmp_counter w),
              trace := trace w @ [Ev_tmp_create (next_temp env w)],
              files := (files w)(next_temp env w \<mapsto> [])\<rparr>)"
  using assms by (simp add: next_temp_def Let_def)

lemma TMP_MAX_Suc: "TMP_MAX = Suc 9999"
  by (simp add: TMP_MAX_def)

lemma named_temporary_file_free:
  assumes "fault env (Op_tmp_create (next_temp env w)) = None"
      and "files w (next_temp env w) = None" and "next_temp env w \<notin> dirs w"
  shows "named_temporary_file env w
         = (Inr (next_temp env w),
            w\<lparr>tmp_counter := Suc (tmp_counter w),
              trace := trace w @ [Ev_tmp_create (next_temp env w)],
              files := (files w)(next_temp env w \<mapsto> [])\<rparr>)"
  unfolding named_temporary_file_def TMP_MAX_Suc using assms by (rule mkstemp_inner_free)

lemma mkstemp_inner_created:
  assumes "mkstemp_inner env attempts w = (Inr tmp, w0)"
  shows "files w tmp = None \<and> tmp \<notin> dirs w \<and> files w0 = (files w)(tmp \<mapsto> [])
         \<and> dirs w0 = dirs w \<and> executable w0 = executable w"
  using assms
proof (induction attempts arbitrary: w)
  case 0
  then show ?case by simp
next
  case (Suc attempts)
  let ?p = "tmpdir env @ [tmp_name env (tmp_counter w)]"
  let ?w1 = "w\<lparr>tmp_counter := Suc (tmp_counter w), trace := trace w @ [Ev_tmp_create ?p]\<rparr>"
  from Suc.prems have
    "(files w ?p = None \<and> ?p \<notin> dirs w \<and> tmp = ?p \<and> w0 = ?w1\<lparr>files := (files w)(?p \<mapsto> [])\<rparr>)
     \<or> mkstemp_inner env attempts ?w1 = (Inr tmp, w0)"
    by (auto simp: Let_def split: option.splits if_splits)
  then show ?case
  proof
    assume "files w ?p = None \<and> ?p \<notin> dirs w \<and> tmp = ?p \<and> w0 = ?w1\<lparr>files := (files w)(?p \<mapsto> [])\<rparr>"
    then show ?thesis by simp
  next
    assume "mkstemp_inner env attempts ?w1 = (Inr tmp, w0)"
    from Suc.IH [OF this] show ?thesis by simp
  qed
qed

subsection \<open>Failure while the content is written\<close>


lemma temp_env_disk_full:
  "named_temporary_file env_disk_full w_repo
   = (Inr [''tmp'', ''tmp0.tmp''],
      w_repo\<lparr>tmp_counter := 1, trace := [Ev_tmp_create [''tmp'', ''tmp0.tmp'']],
             files := [[''tmp'', ''tmp0.tmp''] \<mapsto> []]\<rparr>)"
  by (simp add: named_temporary_file_free next_temp_def env_disk_full_def env0_def w_repo_def
        world0_def str_nat_0)



subsection \<open>The loop over the directory specification\<close>

lemma io_seq_return_left: "io_seq (io_return x) m = m"
  by (rule ext) (simp add: io_simps)

lemma io_seq_assoc: "io_seq (io_seq a b) c = io_seq a (io_seq b c)"
  by (rule ext) (simp add: io_simps split: prod.splits sum.splits)

lemma expand_loop_append:
  "expand_loop env p (xs @ ys) = io_seq (expand_loop env p xs) (expand_loop env p ys)"
  by (induction xs) (simp_all add: io_seq_return_left io_seq_assoc)

text \<open>
  Claim C3, as the code has it. The loop over the directory specification runs inside one
  \<^verbatim>\<open>try\<close> statement, and the atomic write re-raises its failure. So when an entry fails
  with an instance of \<^verbatim>\<open>Exception\<close> (after the entries \<open>before\<close> it went through), the method
  logs the failure and returns normally, and the world it leaves is the world at the
  failure with one more log record: nothing is done for the entries \<open>after\<close>.
\<close>

theorem expansion_stops_at_first_failure:
  assumes "subdirectories = before @ entry # after"
      and "expand_loop env p before
             (w\<lparr>log := log w @ [Log_info ''Creating recommended subdirectory structure'']\<rparr>)
           = (Inr (), w1)"
      and "expand_entry env p entry w1 = (Inl e, w2)"
      and "is_Exception e"
  shows "create_recommended_subdirectory_structure env p w
         = (Inr (), w2\<lparr>log := log w2 @ [Log_error ''Error creating subdirectory structure'' e]\<rparr>)"
proof -
  have "expand_loop env p subdirectories
          (w\<lparr>log := log w @ [Log_info ''Creating recommended subdirectory structure'']\<rparr>)
        = (Inl e, w2)"
    unfolding assms(1) expand_loop_append
    using assms(2,3) by (simp add: io_simps)
  with assms(4) show ?thesis
    by (simp add: create_recommended_subdirectory_structure_def subdirectory_structure_steps_def except_Exception_def io_simps
          logger_info_def logger_error_def)
qed

lemma core_entry_fails:
  "expand_entry env_disk_full [''repo''] (''core/'', ''Core autonomous venture studio components'')
     (w_repo\<lparr>log := log w_repo @ [Log_info ''Creating recommended subdirectory structure'']\<rparr>)
   = (Inl (OSError ''No space left on device''),
      w_repo\<lparr>log := [Log_info ''Creating recommended subdirectory structure''],
             dirs := {[], [''tmp''], [''repo''], [''repo'', ''core'']},
             tmp_counter := 1,
             trace := [Ev_mkdir [''repo'', ''core''], Ev_tmp_create [''tmp'', ''tmp0.tmp''],
                       Ev_write [''tmp'', ''tmp0.tmp''] ''# '', Ev_unlink [''tmp'', ''tmp0.tmp'']]\<rparr>)"
  by (simp add: expand_entry_def atomic_write_def env_disk_full_def env0_def w_repo_def world0_def
        mkdir_p_def named_temporary_file_free next_temp_def file_write_def os_path_exists_def os_unlink_def
        io_simps except_Exception_def Let_def str_nat_0 path_div_def parts_def prefixes_snoc
        dir_readme_content_def insert_commute)

lemma disk_full_steps:
  "subdirectory_structure_steps env_disk_full [''repo''] w_repo
   = (Inl (OSError ''No space left on device''),
      w_repo\<lparr>log := [Log_info ''Creating recommended subdirectory structure''],
             dirs := {[], [''tmp''], [''repo''], [''repo'', ''core'']},
             tmp_counter := 1,
             trace := [Ev_mkdir [''repo'', ''core''], Ev_tmp_create [''tmp'', ''tmp0.tmp''],
                       Ev_write [''tmp'', ''tmp0.tmp''] ''# '', Ev_unlink [''tmp'', ''tmp0.tmp'']]\<rparr>)"
  by (simp add: subdirectory_structure_steps_def subdirectories_def io_simps logger_info_def
        core_entry_fails)

lemma disk_full_run:
  "create_recommended_subdirectory_structure env_disk_full [''repo''] w_repo
   = (Inr (),
      w_repo\<lparr>log := [Log_info ''Creating recommended subdirectory structure'',
                     Log_error ''Error creating subdirectory structure''
                       (OSError ''No space left on device'')],
             dirs := {[], [''tmp''], [''repo''], [''repo'', ''core'']},
             tmp_counter := 1,
             trace := [Ev_mkdir [''repo'', ''core''], Ev_tmp_create [''tmp'', ''tmp0.tmp''],
                       Ev_write [''tmp'', ''tmp0.tmp''] ''# '', Ev_unlink [''tmp'', ''tmp0.tmp'']]\<rparr>)"
  by (simp add: create_recommended_subdirectory_structure_def subdirectory_structure_steps_def subdirectories_def io_simps
        logger_info_def logger_error_def except_Exception_def core_entry_fails)

theorem expansion_stops_at_first_failure_witness:
  "create_recommended_subdirectory_structure env_disk_full [''repo''] w_repo
   = (Inr (),
      w_repo\<lparr>log := [Log_info ''Creating recommended subdirectory structure'',
                     Log_error ''Error creating subdirectory structure''
                       (OSError ''No space left on device'')],
             dirs := {[], [''tmp''], [''repo''], [''repo'', ''core'']},
             tmp_counter := 1,
             trace := [Ev_mkdir [''repo'', ''core''], Ev_tmp_create [''tmp'', ''tmp0.tmp''],
                       Ev_write [''tmp'', ''tmp0.tmp''] ''# '', Ev_unlink [''tmp'', ''tmp0.tmp'']]\<rparr>)"
proof -
  have split: "subdirectories = [] @ (''core/'', ''Core autonomous venture studio components'')
                 # tl subdirectories"
    by (simp add: subdirectories_def)
  have start: "expand_loop env_disk_full [''repo''] []
      (w_repo\<lparr>log := log w_repo @ [Log_info ''Creating recommended subdirectory structure'']\<rparr>)
    = (Inr (), w_repo\<lparr>log := log w_repo @ [Log_info ''Creating recommended subdirectory structure'']\<rparr>)"
    by (simp add: io_simps)
  have exn: "is_Exception (OSError ''No space left on device'')"
    by simp
  show ?thesis
    using expansion_stops_at_first_failure [OF split start core_entry_fails exn]
    by simp
qed

text \<open>
  The disk is full while the README of the first directory is written: the failure is
  logged, and the second directory, its README and its marker file do not exist afterwards.
\<close>

theorem later_entries_not_expanded:
  "fst (create_recommended_subdirectory_structure env_disk_full [''repo''] w_repo) = Inr ()
   \<and> Log_error ''Error creating subdirectory structure'' (OSError ''No space left on device'')
       \<in> set (log (snd (create_recommended_subdirectory_structure env_disk_full [''repo''] w_repo)))
   \<and> [''repo'', ''businesses'']
       \<notin> dirs (snd (create_recommended_subdirectory_structure env_disk_full [''repo''] w_repo))
   \<and> files (snd (create_recommended_subdirectory_structure env_disk_full [''repo''] w_repo))
        [''repo'', ''businesses'', ''README.md''] = None
   \<and> files (snd (create_recommended_subdirectory_structure env_disk_full [''repo''] w_repo))
        [''repo'', ''businesses'', ''.gitkeep''] = None"
  by (simp add: disk_full_run) (simp add: w_repo_def world0_def)

subsection \<open>The atomic write when nothing fails\<close>

text \<open>
  Claim C6 at an input where the code departs from it. The temporary file is created in
  the directory of temporary files, not beside the target. With that directory on a
  filesystem of its own, the rename that \<^verbatim>\<open>shutil.move\<close> tries is refused, and the move
  is carried out otherwise: \<^verbatim>\<open>shutil.move\<close> opens the target and copies into it, then
  unlinks the temporary file; and when the copy fails, the bytes copied so far are what the
  target path holds.
\<close>

theorem atomic_write_across_filesystems:
  "device env_tmpfs (parent (next_temp env_tmpfs w_repo)) \<noteq> device env_tmpfs (parent [''repo'', ''README.md''])
   \<and> trace (snd (atomic_write env_tmpfs [''repo'', ''README.md''] ''hello'' w_repo))
       = [Ev_tmp_create [''tmp'', ''tmp0.tmp''], Ev_write [''tmp'', ''tmp0.tmp''] ''hello'',
          Ev_close [''tmp'', ''tmp0.tmp''],
          Ev_rename [''tmp'', ''tmp0.tmp''] [''repo'', ''README.md''],
          Ev_copy [''tmp'', ''tmp0.tmp''] [''repo'', ''README.md''],
          Ev_unlink [''tmp'', ''tmp0.tmp'']]
   \<and> fst (os_rename env_tmpfs [''tmp'', ''tmp0.tmp''] [''repo'', ''README.md'']
            (w_repo\<lparr>files := [[''tmp'', ''tmp0.tmp''] \<mapsto> ''hello'']\<rparr>))
       = Inl (OSError ''Invalid cross-device link'')
   \<and> fst (atomic_write env_tmpfs_full [''repo'', ''README.md''] ''hello'' w_repo)
       = Inl (OSError ''No space left on device'')
   \<and> files (snd (atomic_write env_tmpfs_full [''repo'', ''README.md''] ''hello'' w_repo))
        [''repo'', ''README.md''] = Some ''he''"
  by (simp add: atomic_write_def env_tmpfs_full_def env_tmpfs_def env0_def w_repo_def world0_def
        named_temporary_file_free next_temp_def file_write_def file_close_def shutil_move_def os_rename_def copy2_def os_path_exists_def
        os_unlink_def io_simps except_Exception_def Let_def str_nat_0 parent_def basename_def
        next_temp_def)

text \<open>When nothing fails, the atomic write puts the content at the target and leaves no
  temporary file, whichever way the move is carried out.\<close>

lemma atomic_write_ok:
  assumes "fault env = (\<lambda>op. None)"
      and "files w (next_temp env w) = None"
      and "next_temp env w \<notin> dirs w"
      and "next_temp env w \<noteq> target"
      and "target \<notin> dirs w"
      and "parent target \<in> dirs w"
  shows "\<exists>evs. atomic_write env target content w
           = (Inr (), w\<lparr>files := (files w)(target \<mapsto> content),
                        tmp_counter := Suc (tmp_counter w),
                        trace := trace w @ evs\<rparr>)
         \<and> list_all (\<lambda>ev. \<not> is_run ev) evs"
proof (cases "device env (parent (next_temp env w)) = device env (parent target)")
  case True
  have fs: "((files w)(next_temp env w \<mapsto> content))(next_temp env w := None, target \<mapsto> content)
            = (files w)(target \<mapsto> content)"
    using assms(2,4) by (auto simp: fun_eq_iff)
  show ?thesis
    apply (rule exI [of _ "[Ev_tmp_create (next_temp env w), Ev_write (next_temp env w) content,
             Ev_close (next_temp env w), Ev_rename (next_temp env w) target]"])
    using assms True fs
    by (simp add: atomic_write_def named_temporary_file_free next_temp_def file_write_def file_close_def
          shutil_move_def os_rename_def copy2_def io_simps except_Exception_def Let_def next_temp_def)
next
  case False
  have fs: "((files w)(next_temp env w \<mapsto> content, target \<mapsto> content))(next_temp env w := None)
            = (files w)(target \<mapsto> content)"
    using assms(2,4) by (auto simp: fun_eq_iff)
  show ?thesis
    apply (rule exI [of _ "[Ev_tmp_create (next_temp env w), Ev_write (next_temp env w) content,
             Ev_close (next_temp env w), Ev_rename (next_temp env w) target,
             Ev_copy (next_temp env w) target, Ev_unlink (next_temp env w)]"])
    using assms False fs
    by (simp add: atomic_write_def named_temporary_file_free next_temp_def file_write_def file_close_def
          shutil_move_def os_rename_def copy2_def os_unlink_def io_simps except_Exception_def Let_def next_temp_def)
qed

subsection \<open>What a statement adds to the trace\<close>

lemma appends_mono: "appends P m \<Longrightarrow> (\<And>ev. P ev \<Longrightarrow> Q ev) \<Longrightarrow> appends Q m"
  unfolding appends_def by (meson list.pred_mono_strong)

lemma appends_return [appends_intros]: "appends P (io_return x)"
  by (simp add: appends_def io_return_def)

lemma appends_raise [appends_intros]: "appends P (io_raise e)"
  by (simp add: appends_def io_raise_def)

lemma appends_lift [appends_intros]: "appends P (io_lift r)"
  by (simp add: appends_def io_lift_def)

lemma appends_logger_info [appends_intros]: "appends P (logger_info msg)"
  by (auto simp: appends_def logger_info_def)

lemma appends_logger_error [appends_intros]: "appends P (logger_error msg e)"
  by (auto simp: appends_def logger_error_def)

lemma appends_datetime_now [appends_intros]: "appends P (datetime_now env)"
  by (auto simp: appends_def datetime_now_def)

lemma appends_os_path_exists [appends_intros]: "appends P (os_path_exists p)"
  by (auto simp: appends_def os_path_exists_def)

lemma appends_bind [appends_intros]:
  assumes "appends P m" and "\<And>x. appends P (f x)"
  shows "appends P (io_bind m f)"
  unfolding appends_def
proof (intro allI impI)
  fix w r w'
  assume run: "io_bind m f w = (r, w')"
  obtain r1 w1 where mw: "m w = (r1, w1)" by (cases "m w")
  with assms(1) obtain evs1 where e1: "trace w1 = trace w @ evs1" "list_all P evs1"
    unfolding appends_def by blast
  show "\<exists>evs. trace w' = trace w @ evs \<and> list_all P evs"
  proof (cases r1)
    case (Inl e)
    with run mw have "w' = w1" by (simp add: io_bind_def)
    with e1 show ?thesis by blast
  next
    case (Inr x)
    with run mw have "f x w1 = (r, w')" by (simp add: io_bind_def)
    with assms(2) obtain evs2 where "trace w' = trace w1 @ evs2" "list_all P evs2"
      unfolding appends_def by blast
    with e1 have "trace w' = trace w @ (evs1 @ evs2) \<and> list_all P (evs1 @ evs2)" by simp
    then show ?thesis by blast
  qed
qed

lemma appends_seq [appends_intros]: "appends P m \<Longrightarrow> appends P n \<Longrightarrow> appends P (io_seq m n)"
  by (simp add: io_seq_def appends_bind)

lemma appends_except [appends_intros]:
  assumes "appends P body" and "\<And>e. appends P (handler e)"
  shows "appends P (except_Exception body handler)"
  unfolding appends_def
proof (intro allI impI)
  fix w r w'
  assume run: "except_Exception body handler w = (r, w')"
  obtain r1 w1 where bw: "body w = (r1, w1)" by (cases "body w")
  with assms(1) obtain evs1 where e1: "trace w1 = trace w @ evs1" "list_all P evs1"
    unfolding appends_def by blast
  show "\<exists>evs. trace w' = trace w @ evs \<and> list_all P evs"
  proof (cases "\<exists>e. r1 = Inl e \<and> is_Exception e")
    case True
    then obtain e where "r1 = Inl e" "is_Exception e" by blast
    with run bw have "handler e w1 = (r, w')" by (simp add: except_Exception_def)
    with assms(2) obtain evs2 where "trace w' = trace w1 @ evs2" "list_all P evs2"
      unfolding appends_def by blast
    with e1 have "trace w' = trace w @ (evs1 @ evs2) \<and> list_all P (evs1 @ evs2)" by simp
    then show ?thesis by blast
  next
    case False
    with run bw have "w' = w1"
      by (cases r1) (auto simp: except_Exception_def)
    with e1 show ?thesis by blast
  qed
qed

lemma quiet_mkdir_p [appends_intros]: "appends (\<lambda>ev. \<not> is_run ev) (mkdir_p env p)"
  by (auto simp: appends_def mkdir_p_def Let_def split: option.splits if_splits)

lemma quiet_mkstemp_inner: "appends (\<lambda>ev. \<not> is_run ev) (mkstemp_inner env attempts)"
proof (induction attempts)
  case 0
  show ?case by (simp add: appends_def)
next
  case (Suc attempts)
  show ?case
    unfolding appends_def
  proof (intro allI impI)
    fix w r w'
    assume run: "mkstemp_inner env (Suc attempts) w = (r, w')"
    let ?p = "tmpdir env @ [tmp_name env (tmp_counter w)]"
    let ?w1 = "w\<lparr>tmp_counter := Suc (tmp_counter w), trace := trace w @ [Ev_tmp_create ?p]\<rparr>"
    from run have "trace w' = trace w @ [Ev_tmp_create ?p] \<or> mkstemp_inner env attempts ?w1 = (r, w')"
      by (auto simp: Let_def split: option.splits if_splits)
    then show "\<exists>evs. trace w' = trace w @ evs \<and> list_all (\<lambda>ev. \<not> is_run ev) evs"
    proof
      assume "trace w' = trace w @ [Ev_tmp_create ?p]"
      then have "trace w' = trace w @ [Ev_tmp_create ?p]
          \<and> list_all (\<lambda>ev. \<not> is_run ev) [Ev_tmp_create ?p]"
        by simp
      then show ?thesis by blast
    next
      assume "mkstemp_inner env attempts ?w1 = (r, w')"
      with Suc obtain evs where "trace w' = trace ?w1 @ evs" "list_all (\<lambda>ev. \<not> is_run ev) evs"
        unfolding appends_def by blast
      then have "trace w' = trace w @ (Ev_tmp_create ?p # evs)
          \<and> list_all (\<lambda>ev. \<not> is_run ev) (Ev_tmp_create ?p # evs)"
        by simp
      then show ?thesis by blast
    qed
  qed
qed

lemma quiet_named_temporary_file [appends_intros]:
  "appends (\<lambda>ev. \<not> is_run ev) (named_temporary_file env)"
  unfolding named_temporary_file_def by (rule quiet_mkstemp_inner)

lemma quiet_file_write [appends_intros]: "appends (\<lambda>ev. \<not> is_run ev) (file_write env p c)"
  by (auto simp: appends_def file_write_def split: option.splits)

lemma quiet_file_close [appends_intros]: "appends (\<lambda>ev. \<not> is_run ev) (file_close env p)"
  by (auto simp: appends_def file_close_def Let_def split: option.splits)

lemma quiet_os_unlink [appends_intros]: "appends (\<lambda>ev. \<not> is_run ev) (os_unlink env p)"
  by (auto simp: appends_def os_unlink_def Let_def split: option.splits if_splits)

lemma unlink_trace: "os_unlink env p v = (r, w') \<Longrightarrow> trace w' = trace v @ [Ev_unlink p]"
  by (auto simp: os_unlink_def Let_def split: option.splits if_splits)

lemma quiet_os_rename [appends_intros]: "appends (\<lambda>ev. \<not> is_run ev) (os_rename env src dst)"
  by (auto simp: appends_def os_rename_def Let_def split: option.splits if_splits)

lemma quiet_copy2 [appends_intros]: "appends (\<lambda>ev. \<not> is_run ev) (copy2 env src dst)"
  by (auto simp: appends_def copy2_def Let_def split: option.splits if_splits)

lemma quiet_shutil_move [appends_intros]: "appends (\<lambda>ev. \<not> is_run ev) (shutil_move env src dst)"
  unfolding appends_def
proof (intro allI impI)
  fix w r w'
  assume run: "shutil_move env src dst w = (r, w')"
  define real_dst where "real_dst = (if dst \<in> dirs w then dst @ [basename src] else dst)"
  obtain r1 w1 where rn: "os_rename env src real_dst w = (r1, w1)"
    by (cases "os_rename env src real_dst w")
  with quiet_os_rename [of env src real_dst] obtain evs1 where
    e1: "trace w1 = trace w @ evs1" "list_all (\<lambda>ev. \<not> is_run ev) evs1"
    unfolding appends_def by blast
  have "appends (\<lambda>ev. \<not> is_run ev) (io_seq (copy2 env src real_dst) (os_unlink env src))"
    by (intro appends_seq quiet_copy2 quiet_os_unlink)
  then have fallback: "io_seq (copy2 env src real_dst) (os_unlink env src) w1 = (r, w')
      \<Longrightarrow> \<exists>evs. trace w' = trace w1 @ evs \<and> list_all (\<lambda>ev. \<not> is_run ev) evs"
    unfolding appends_def by blast
  from run rn have "w' = w \<or> w' = w1
      \<or> io_seq (copy2 env src real_dst) (os_unlink env src) w1 = (r, w')"
    by (cases r1) (auto simp: shutil_move_def os_rename_def copy2_def Let_def real_dst_def [symmetric] split: if_splits)
  then show "\<exists>evs. trace w' = trace w @ evs \<and> list_all (\<lambda>ev. \<not> is_run ev) evs"
  proof (elim disjE)
    assume "w' = w"
    then have "trace w' = trace w @ [] \<and> list_all (\<lambda>ev. \<not> is_run ev) []" by simp
    then show ?thesis by blast
  next
    assume "w' = w1"
    with e1 show ?thesis by blast
  next
    assume "io_seq (copy2 env src real_dst) (os_unlink env src) w1 = (r, w')"
    from fallback [OF this] obtain evs2 where
      "trace w' = trace w1 @ evs2" "list_all (\<lambda>ev. \<not> is_run ev) evs2"
      by blast
    with e1 have "trace w' = trace w @ (evs1 @ evs2)
        \<and> list_all (\<lambda>ev. \<not> is_run ev) (evs1 @ evs2)"
      by simp
    then show ?thesis by blast
  qed
qed

lemma quiet_touch [appends_intros]: "appends (\<lambda>ev. \<not> is_run ev) (touch env p)"
  by (auto simp: appends_def touch_def Let_def split: option.splits if_splits)

lemma quiet_os_chmod [appends_intros]: "appends (\<lambda>ev. \<not> is_run ev) (os_chmod env p)"
  by (auto simp: appends_def os_chmod_def Let_def split: option.splits if_splits)

lemma quiet_atomic_write [appends_intros]:
  "appends (\<lambda>ev. \<not> is_run ev) (atomic_write env target content)"
  unfolding atomic_write_def
  by (intro appends_intros) (simp_all add: quiet_os_unlink appends_return)

lemma quiet_dashboard_config [appends_intros]:
  "appends (\<lambda>ev. \<not> is_run ev) (dashboard_config cfg env)"
  unfolding dashboard_config_def by (intro appends_intros)

lemma quiet_expand_entry: "appends (\<lambda>ev. \<not> is_run ev) (expand_entry env p entry)"
  unfolding expand_entry_def Let_def by (intro appends_intros)

lemma quiet_expand_loop: "appends (\<lambda>ev. \<not> is_run ev) (expand_loop env p entries)"
  by (induction entries) (simp_all add: appends_intros quiet_expand_entry)

lemma quiet_create_recommended_subdirectory_structure:
  "quiet (create_recommended_subdirectory_structure env p)"
  unfolding quiet_def create_recommended_subdirectory_structure_def subdirectory_structure_steps_def
  by (intro appends_intros quiet_expand_loop)

lemma quiet_create_mobile_readme: "quiet (create_mobile_readme cfg env self p)"
  unfolding quiet_def create_mobile_readme_def mobile_readme_steps_def by (intro appends_intros)

lemma quiet_create_mobile_requirements: "quiet (create_mobile_requirements env p)"
  unfolding quiet_def create_mobile_requirements_def mobile_requirements_steps_def Let_def
  by (intro appends_intros)

lemma quiet_create_mobile_setup_script: "quiet (create_mobile_setup_script env p)"
  unfolding quiet_def create_mobile_setup_script_def mobile_setup_script_steps_def Let_def
  by (intro appends_intros)

lemma quiet_create_mobile_dashboard_config: "quiet (create_mobile_dashboard_config cfg env p)"
  unfolding quiet_def create_mobile_dashboard_config_def mobile_dashboard_config_steps_def Let_def
  by (intro appends_intros)

lemma quiet_generate_mobile_setup_instructions:
  "quiet (generate_mobile_setup_instructions cfg env self)"
  unfolding quiet_def generate_mobile_setup_instructions_def by (intro appends_intros)

subsection \<open>The order of the steps\<close>

lemma mkdir_p_trace: "mkdir_p env p w = (r, w') \<Longrightarrow> trace w' = trace w @ [Ev_mkdir p]"
  by (auto simp: mkdir_p_def Let_def split: option.splits if_splits)

lemma subprocess_run_trace:
  "subprocess_run env cwd cmd w = (r, w') \<Longrightarrow> trace w' = trace w @ [Ev_run cwd cmd]"
  by (auto simp: subprocess_run_def Let_def split: option.splits if_splits)

lemma io_seq_logger_info:
  "io_seq (logger_info msg) k w = k (w\<lparr>log := log w @ [Log_info msg]\<rparr>)"
  by (simp add: io_simps logger_info_def)

lemma io_bind_lift_Inr: "io_bind (io_lift (Inr x)) f = f x"
  by (rule ext) (simp add: io_simps)

lemma io_seq_step: "m w = (Inr x, w1) \<Longrightarrow> io_seq m k w = k w1"
  by (simp add: io_simps)

lemma io_seq_stop: "m w = (Inl e, w1) \<Longrightarrow> io_seq m k w = (Inl e, w1)"
  by (simp add: io_simps)

lemma subprocess_run_ok:
  "run_ok env cwd cmd \<Longrightarrow>
   subprocess_run env cwd cmd w = (Inr (), w\<lparr>trace := trace w @ [Ev_run cwd cmd]\<rparr>)"
  by (simp add: subprocess_run_def run_ok_def Let_def)

lemma subprocess_run_fails:
  "\<not> run_ok env cwd cmd \<Longrightarrow>
   \<exists>e. subprocess_run env cwd cmd w = (Inl e, w\<lparr>trace := trace w @ [Ev_run cwd cmd]\<rparr>)"
  by (auto simp: subprocess_run_def run_ok_def Let_def split: option.splits)

lemma returns_io_seq:
  assumes "returns m" and "returns n"
  shows "returns (io_seq m n)"
  unfolding returns_def
proof
  fix w
  from assms(1) obtain x w1 where m: "m w = (Inr x, w1)"
    unfolding returns_def by blast
  from assms(2) obtain y w2 where "n w1 = (Inr y, w2)"
    unfolding returns_def by blast
  with m have "io_seq m n w = (Inr y, w2)" by (simp add: io_simps)
  then show "\<exists>x w'. io_seq m n w = (Inr x, w')" by blast
qed

text \<open>The three version-control commands that end the block: each is run when the one
  before it succeeded.\<close>

lemma version_control_steps_trace:
  "trace (snd ((io_seq (subprocess_run env p c1)
               (io_seq (subprocess_run env p c2)
               (io_seq (subprocess_run env p c3)
               (io_seq (logger_info msg) (io_return True))))) w))
   = trace w @ Ev_run p c1
       # (if run_ok env p c1
          then Ev_run p c2 # (if run_ok env p c2 then [Ev_run p c3] else [])
          else [])"
proof (cases "run_ok env p c1")
  case False
  from subprocess_run_fails [OF this, of w] obtain e where
    "subprocess_run env p c1 w = (Inl e, w\<lparr>trace := trace w @ [Ev_run p c1]\<rparr>)"
    by blast
  with False show ?thesis by (simp add: io_simps)
next
  case ok1: True
  let ?w1 = "w\<lparr>trace := trace w @ [Ev_run p c1]\<rparr>"
  note s1 = subprocess_run_ok [OF ok1, of w]
  show ?thesis
  proof (cases "run_ok env p c2")
    case False
    from subprocess_run_fails [OF this, of ?w1] obtain e where
      "subprocess_run env p c2 ?w1 = (Inl e, ?w1\<lparr>trace := trace ?w1 @ [Ev_run p c2]\<rparr>)"
      by blast
    with False ok1 s1 show ?thesis by (simp add: io_simps)
  next
    case ok2: True
    let ?w2 = "?w1\<lparr>trace := trace ?w1 @ [Ev_run p c2]\<rparr>"
    note s2 = subprocess_run_ok [OF ok2, of ?w1]
    obtain r3 w3 where s3: "subprocess_run env p c3 ?w2 = (r3, w3)"
      by (cases "subprocess_run env p c3 ?w2")
    from subprocess_run_trace [OF s3] have "trace w3 = trace w @ [Ev_run p c1, Ev_run p c2, Ev_run p c3]"
      by simp
    with ok1 ok2 s1 s2 s3 show ?thesis
      by (cases r3) (simp_all add: io_simps logger_info_def)
  qed
qed

lemma version_control_steps_result:
  assumes "run_ok env p c1" and "run_ok env p c2" and "run_ok env p c3"
  shows "fst ((io_seq (subprocess_run env p c1)
               (io_seq (subprocess_run env p c2)
               (io_seq (subprocess_run env p c3)
               (io_seq (logger_info msg) (io_return True))))) w) = Inr True"
  by (simp add: io_simps logger_info_def subprocess_run_ok [OF assms(1)]
        subprocess_run_ok [OF assms(2)] subprocess_run_ok [OF assms(3)])

lemma create_main_trace:
  "trace (snd (create_main_github_repository cfg env self w))
   = trace (snd (main_repository_steps cfg env self w))"
proof -
  obtain r w1 where "main_repository_steps cfg env self w = (r, w1)"
    by (cases "main_repository_steps cfg env self w")
  then show ?thesis
    by (cases r) (simp_all add: create_main_github_repository_def except_Exception_def io_simps
        logger_error_def)
qed

lemma create_main_returned:
  "fst (main_repository_steps cfg env self w) = Inr b \<Longrightarrow>
   fst (create_main_github_repository cfg env self w) = Inr b"
  by (cases "main_repository_steps cfg env self w")
     (simp add: create_main_github_repository_def except_Exception_def)

text \<open>
  The block of \<^verbatim>\<open>create_main_github_repository\<close> either stops in one of its first three
  statements, or reaches the generation methods in a world \<open>w3\<close> whose trace ends with the
  creation of the two directories and the version-control \<^verbatim>\<open>init\<close>.
\<close>

lemma main_repository_steps_cases:
  assumes "path_div_val (mobile_dir self) (main_repo_name self) = Inr p"
  shows "(\<exists>e w'. main_repository_steps cfg env self w = (Inl e, w')
            \<and> (trace w' = trace w @ [Ev_mkdir (mobile_dir self)]
               \<or> trace w' = trace w @ [Ev_mkdir (mobile_dir self), Ev_mkdir p]
               \<or> (trace w' = trace w @ [Ev_mkdir (mobile_dir self), Ev_mkdir p, Ev_run p Git_init]
                  \<and> \<not> run_ok env p Git_init)))
       \<or> (\<exists>w3. run_ok env p Git_init
            \<and> trace w3 = trace w @ [Ev_mkdir (mobile_dir self), Ev_mkdir p, Ev_run p Git_init]
            \<and> main_repository_steps cfg env self w
              = io_seq (create_recommended_subdirectory_structure env p)
                 (io_seq (create_mobile_readme cfg env self p)
                 (io_seq (create_mobile_requirements env p)
                 (io_seq (create_mobile_setup_script env p)
                 (io_seq (create_mobile_dashboard_config cfg env p)
                 (io_seq (subprocess_run env p Git_add_all)
                 (io_seq (subprocess_run env p (Git_commit ''Initial commit - Mobile Access Setup''))
                 (io_seq (subprocess_run env p (Git_remote_add ''origin'' (remote_url self)))
                 (io_seq (logger_info (''Created main repository structure: '' @ str_path p))
                   (io_return True))))))))) w3)"
proof -
  define K where "K = io_seq (create_recommended_subdirectory_structure env p)
                 (io_seq (create_mobile_readme cfg env self p)
                 (io_seq (create_mobile_requirements env p)
                 (io_seq (create_mobile_setup_script env p)
                 (io_seq (create_mobile_dashboard_config cfg env p)
                 (io_seq (subprocess_run env p Git_add_all)
                 (io_seq (subprocess_run env p (Git_commit ''Initial commit - Mobile Access Setup''))
                 (io_seq (subprocess_run env p (Git_remote_add ''origin'' (remote_url self)))
                 (io_seq (logger_info (''Created main repository structure: '' @ str_path p))
                   (io_return True)))))))))"
  define w0 where
    "w0 = w\<lparr>log := log w @ [Log_info (''Creating main GitHub repository: '' @ py_str (main_repo_name self))]\<rparr>"
  let ?m1 = "Ev_mkdir (mobile_dir self)"
  let ?m2 = "Ev_mkdir p"
  let ?in = "Ev_run p Git_init"
  have steps: "main_repository_steps cfg env self w
      = io_seq (mkdir_p env (mobile_dir self))
          (io_seq (mkdir_p env p) (io_seq (subprocess_run env p Git_init) K)) w0"
    unfolding K_def w0_def
    by (simp only: main_repository_steps_def assms io_bind_lift_Inr io_seq_logger_info)
  have tw0: "trace w0 = trace w" by (simp add: w0_def)
  obtain r1 w1 where s1: "mkdir_p env (mobile_dir self) w0 = (r1, w1)"
    by (cases "mkdir_p env (mobile_dir self) w0")
  from mkdir_p_trace [OF s1] tw0 have t1: "trace w1 = trace w @ [?m1]" by simp
  show ?thesis
  proof (cases r1)
    case (Inl e)
    with s1 steps have "main_repository_steps cfg env self w = (Inl e, w1)"
      by (simp add: io_seq_stop)
    with t1 have "main_repository_steps cfg env self w = (Inl e, w1)
        \<and> (trace w1 = trace w @ [?m1] \<or> trace w1 = trace w @ [?m1, ?m2]
           \<or> (trace w1 = trace w @ [?m1, ?m2, ?in] \<and> \<not> run_ok env p Git_init))"
      by simp
    then show ?thesis unfolding K_def [symmetric] by blast
  next
    case (Inr u1)
    with s1 steps have st1: "main_repository_steps cfg env self w
        = io_seq (mkdir_p env p) (io_seq (subprocess_run env p Git_init) K) w1"
      by (simp add: io_seq_step)
    obtain r2 w2 where s2: "mkdir_p env p w1 = (r2, w2)"
      by (cases "mkdir_p env p w1")
    from mkdir_p_trace [OF s2] t1 have t2: "trace w2 = trace w @ [?m1, ?m2]" by simp
    show ?thesis
    proof (cases r2)
      case (Inl e)
      with s2 st1 have "main_repository_steps cfg env self w = (Inl e, w2)"
        by (simp add: io_seq_stop)
      with t2 have "main_repository_steps cfg env self w = (Inl e, w2)
        \<and> (trace w2 = trace w @ [?m1] \<or> trace w2 = trace w @ [?m1, ?m2]
           \<or> (trace w2 = trace w @ [?m1, ?m2, ?in] \<and> \<not> run_ok env p Git_init))"
        by simp
      then show ?thesis unfolding K_def [symmetric] by blast
    next
      case (Inr u2)
      with s2 st1 have st2: "main_repository_steps cfg env self w
          = io_seq (subprocess_run env p Git_init) K w2"
        by (simp add: io_seq_step)
      let ?w3 = "w2\<lparr>trace := trace w2 @ [?in]\<rparr>"
      from t2 have t3: "trace ?w3 = trace w @ [?m1, ?m2, ?in]" by simp
      show ?thesis
      proof (cases "run_ok env p Git_init")
        case False
        from subprocess_run_fails [OF this, of w2] obtain e where
          "subprocess_run env p Git_init w2 = (Inl e, ?w3)"
          by blast
        with st2 have "main_repository_steps cfg env self w = (Inl e, ?w3)"
          by (simp add: io_seq_stop)
        with t3 False have "main_repository_steps cfg env self w = (Inl e, ?w3)
          \<and> (trace ?w3 = trace w @ [?m1] \<or> trace ?w3 = trace w @ [?m1, ?m2]
             \<or> (trace ?w3 = trace w @ [?m1, ?m2, ?in] \<and> \<not> run_ok env p Git_init))"
          by simp
        then show ?thesis unfolding K_def [symmetric] by blast
      next
        case True
        from subprocess_run_ok [OF this, of w2] st2
        have "main_repository_steps cfg env self w = K ?w3"
          by (simp add: io_seq_step)
        with t3 True have "run_ok env p Git_init \<and> trace ?w3 = trace w @ [?m1, ?m2, ?in]
            \<and> main_repository_steps cfg env self w = K ?w3"
          by simp
        then show ?thesis unfolding K_def [symmetric] by blast
      qed
    qed
  qed
qed

text \<open>
  The five generation methods, followed by any statement \<open>k\<close>: they add to the trace only
  events other than subprocesses; \<open>k\<close> is run in the world they leave unless one of them
  raised; and none of them raises when every failure is an instance of \<^verbatim>\<open>Exception\<close>.
\<close>

lemma generation_methods_run:
  "\<exists>r w' art.
      trace w' = trace w @ art \<and> list_all (\<lambda>ev. \<not> is_run ev) art
    \<and> io_seq (create_recommended_subdirectory_structure env p)
         (io_seq (create_mobile_readme cfg env self p)
         (io_seq (create_mobile_requirements env p)
         (io_seq (create_mobile_setup_script env p)
         (io_seq (create_mobile_dashboard_config cfg env p) k)))) w
       = (case r of Inl e \<Rightarrow> (Inl e, w') | Inr u \<Rightarrow> k w')
    \<and> (exceptions_only env \<longrightarrow> r = Inr ())"
proof -
  define A where "A = io_seq (create_recommended_subdirectory_structure env p)
      (io_seq (create_mobile_readme cfg env self p)
      (io_seq (create_mobile_requirements env p)
      (io_seq (create_mobile_setup_script env p)
              (create_mobile_dashboard_config cfg env p))))"
  have Ak: "io_seq (create_recommended_subdirectory_structure env p)
         (io_seq (create_mobile_readme cfg env self p)
         (io_seq (create_mobile_requirements env p)
         (io_seq (create_mobile_setup_script env p)
         (io_seq (create_mobile_dashboard_config cfg env p) k)))) = io_seq A k"
    by (simp only: A_def io_seq_assoc)
  have qA: "appends (\<lambda>ev. \<not> is_run ev) A"
    unfolding A_def
    using quiet_create_recommended_subdirectory_structure [of env p]
      quiet_create_mobile_readme [of cfg env self p] quiet_create_mobile_requirements [of env p]
      quiet_create_mobile_setup_script [of env p] quiet_create_mobile_dashboard_config [of cfg env p]
    by (simp add: quiet_def appends_seq)
  have rA: "returns A" if "exceptions_only env"
    unfolding A_def
    by (intro returns_io_seq returns_create_recommended_subdirectory_structure
          returns_create_mobile_readme returns_create_mobile_requirements
          returns_create_mobile_setup_script returns_create_mobile_dashboard_config that)
  obtain r w' where run: "A w = (r, w')" by (cases "A w")
  with qA obtain art where art: "trace w' = trace w @ art" "list_all (\<lambda>ev. \<not> is_run ev) art"
    unfolding appends_def by blast
  have seq: "io_seq A k w = (case r of Inl e \<Rightarrow> (Inl e, w') | Inr u \<Rightarrow> k w')"
    using run by (cases r) (simp_all add: io_simps)
  have "r = Inr ()" if "exceptions_only env"
    using rA [OF that] run unfolding returns_def by (metis Pair_inject old.unit.exhaust)
  with art seq have "trace w' = trace w @ art \<and> list_all (\<lambda>ev. \<not> is_run ev) art
      \<and> io_seq A k w = (case r of Inl e \<Rightarrow> (Inl e, w') | Inr u \<Rightarrow> k w')
      \<and> (exceptions_only env \<longrightarrow> r = Inr ())"
    by simp
  then show ?thesis unfolding Ak by blast
qed


lemma str_nat_1: "str_nat (Suc 0) = ''1''"
  by code_simp

lemma exceptions_only_env0: "exceptions_only env0"
  by (simp add: exceptions_only_def env0_def)

lemma exceptions_only_env_commit_fails: "exceptions_only env_commit_fails"
  by (simp add: exceptions_only_def env_commit_fails_def env0_def)

lemma exceptions_only_env_disk_full: "exceptions_only env_disk_full"
  by (simp add: exceptions_only_def env_disk_full_def env0_def)

lemma repo0_path: "path_div_val (mobile_dir manager0) (main_repo_name manager0) = Inr repo0"
  by (simp add: manager0_def repo0_def path_div_def parts_def)

lemma artifacts_then:
  assumes "exceptions_only env"
  shows "\<exists>w'. io_seq (create_recommended_subdirectory_structure env p)
              (io_seq (create_mobile_readme cfg env self p)
              (io_seq (create_mobile_requirements env p)
              (io_seq (create_mobile_setup_script env p)
              (io_seq (create_mobile_dashboard_config cfg env p) k)))) w = k w'"
proof -
  from generation_methods_run [of w env p cfg self k] assms
  obtain r w' where "r = Inr ()"
    and "io_seq (create_recommended_subdirectory_structure env p)
              (io_seq (create_mobile_readme cfg env self p)
              (io_seq (create_mobile_requirements env p)
              (io_seq (create_mobile_setup_script env p)
              (io_seq (create_mobile_dashboard_config cfg env p) k)))) w
         = (case r of Inl e \<Rightarrow> (Inl e, w') | Inr u \<Rightarrow> k w')"
    by auto
  then show ?thesis by auto
qed

text \<open>The first statements of the block, run in the empty world by the manager built from
  \<open>CONFIG\<close>.\<close>

lemma main_repository_steps_head:
  assumes "fault env (Op_mkdir (mobile_dir manager0)) = None"
      and "fault env (Op_mkdir repo0) = None"
      and "run_ok env repo0 Git_init"
  shows "main_repository_steps cfg env manager0 world0
   = io_seq (create_recommended_subdirectory_structure env repo0)
      (io_seq (create_mobile_readme cfg env manager0 repo0)
      (io_seq (create_mobile_requirements env repo0)
      (io_seq (create_mobile_setup_script env repo0)
      (io_seq (create_mobile_dashboard_config cfg env repo0)
      (io_seq (subprocess_run env repo0 Git_add_all)
      (io_seq (subprocess_run env repo0 (Git_commit ''Initial commit - Mobile Access Setup''))
      (io_seq (subprocess_run env repo0 (Git_remote_add ''origin'' (remote_url manager0)))
      (io_seq (logger_info (''Created main repository structure: '' @ str_path repo0))
        (io_return True))))))))) world_after_init"
proof -
  have m1: "mkdir_p env (mobile_dir manager0)
              (world0\<lparr>log := log world0
                 @ [Log_info (''Creating main GitHub repository: '' @ py_str (main_repo_name manager0))]\<rparr>)
      = (Inr (), world0\<lparr>log := [Log_info ''Creating main GitHub repository: iza-os-ecosystem''],
            trace := [Ev_mkdir [''home'', ''mobile_repositories'']],
            dirs := {[], [''tmp''], [''home''], [''home'', ''mobile_repositories'']}\<rparr>)"
    using assms(1) by (auto simp: mkdir_p_def world0_def manager0_def Let_def prefixes_snoc)
  have m2: "mkdir_p env repo0
      (world0\<lparr>log := [Log_info ''Creating main GitHub repository: iza-os-ecosystem''],
            trace := [Ev_mkdir [''home'', ''mobile_repositories'']],
            dirs := {[], [''tmp''], [''home''], [''home'', ''mobile_repositories'']}\<rparr>)
      = (Inr (), world0\<lparr>log := [Log_info ''Creating main GitHub repository: iza-os-ecosystem''],
            trace := [Ev_mkdir [''home'', ''mobile_repositories''], Ev_mkdir repo0],
            dirs := {[], [''tmp''], [''home''], [''home'', ''mobile_repositories''], repo0}\<rparr>)"
    using assms(2) by (auto simp: mkdir_p_def world0_def repo0_def Let_def prefixes_snoc)
  have m3: "subprocess_run env repo0 Git_init
      (world0\<lparr>log := [Log_info ''Creating main GitHub repository: iza-os-ecosystem''],
            trace := [Ev_mkdir [''home'', ''mobile_repositories''], Ev_mkdir repo0],
            dirs := {[], [''tmp''], [''home''], [''home'', ''mobile_repositories''], repo0}\<rparr>)
      = (Inr (), world_after_init)"
    by (simp add: subprocess_run_ok [OF assms(3)] world_after_init_def)
  show ?thesis
    unfolding main_repository_steps_def
    apply (subst io_seq_logger_info)
    apply (subst io_seq_step [where m = "mkdir_p env (mobile_dir manager0)", OF m1])
    apply (subst repo0_path)
    apply (subst io_bind_lift_Inr)
    apply (subst io_seq_step [where m = "mkdir_p env repo0", OF m2])
    apply (subst io_seq_step [where m = "subprocess_run env repo0 Git_init", OF m3])
    apply (rule refl)
    done
qed

lemma grows_of_quiet: "quiet m \<Longrightarrow> appends (\<lambda>ev. True) m"
  unfolding quiet_def by (erule appends_mono) simp

lemma grows_subprocess_run: "appends (\<lambda>ev. True) (subprocess_run env cwd cmd)"
  by (auto simp: appends_def subprocess_run_def Let_def split: option.splits if_splits)

lemma init_is_third:
  assumes "fault env (Op_mkdir (mobile_dir manager0)) = None"
      and "fault env (Op_mkdir repo0) = None"
      and "run_ok env repo0 Git_init"
  shows "take 3 (trace (snd (create_main_github_repository cfg env manager0 world0)))
   = [Ev_mkdir [''home'', ''mobile_repositories''], Ev_mkdir repo0, Ev_run repo0 Git_init]"
proof -
  let ?rest = "io_seq (create_recommended_subdirectory_structure env repo0)
      (io_seq (create_mobile_readme cfg env manager0 repo0)
      (io_seq (create_mobile_requirements env repo0)
      (io_seq (create_mobile_setup_script env repo0)
      (io_seq (create_mobile_dashboard_config cfg env repo0)
      (io_seq (subprocess_run env repo0 Git_add_all)
      (io_seq (subprocess_run env repo0 (Git_commit ''Initial commit - Mobile Access Setup''))
      (io_seq (subprocess_run env repo0 (Git_remote_add ''origin'' (remote_url manager0)))
      (io_seq (logger_info (''Created main repository structure: '' @ str_path repo0))
        (io_return True)))))))))"
  have steps: "main_repository_steps cfg env manager0 world0 = ?rest world_after_init"
    by (rule main_repository_steps_head [OF assms])
  have "appends (\<lambda>ev. True) ?rest"
    by (intro appends_seq appends_return appends_logger_info grows_subprocess_run grows_of_quiet
          quiet_create_recommended_subdirectory_structure quiet_create_mobile_readme
          quiet_create_mobile_requirements quiet_create_mobile_setup_script
          quiet_create_mobile_dashboard_config)
  then obtain evs where "trace (snd (?rest world_after_init)) = trace world_after_init @ evs"
    unfolding appends_def by (metis prod.collapse)
  with steps show ?thesis
    by (simp add: create_main_trace world_after_init_def)
qed

lemma env0_head:
  "fault env0 (Op_mkdir (mobile_dir manager0)) = None" "fault env0 (Op_mkdir repo0) = None"
  "run_ok env0 repo0 c" "exceptions_only env0"
  by (simp_all add: env0_def run_ok_def exceptions_only_def)



subsection \<open>What the methods let through\<close>

lemma handler_logs:
  assumes "safe block" and "block w = (Inl e, w1)"
  shows "except_Exception block (\<lambda>e. logger_error msg e) w
         = (Inr (), w1\<lparr>log := log w1 @ [Log_error msg e]\<rparr>)"
proof -
  from assms have "is_Exception e" by (auto simp: safe_def)
  with assms(2) show ?thesis
    by (simp add: except_Exception_def logger_error_def)
qed

lemma attempted_create_main:
  "attempted (create_main_github_repository cfg env self) w
   = attempted (main_repository_steps cfg env self) w"
  by (simp add: attempted_def create_main_trace)

lemma version_control_steps_attempted:
  assumes eo: "exceptions_only env"
    and path: "path_div_val (mobile_dir self) (main_repo_name self) = Inr p"
    and ok: "run_ok env p Git_init"
    and reached: "Ev_run p Git_init \<in> set (attempted (main_repository_steps cfg env self) w)"
  shows "\<exists>art. attempted (main_repository_steps cfg env self) w
           = [Ev_mkdir (mobile_dir self), Ev_mkdir p, Ev_run p Git_init] @ art
             @ Ev_run p Git_add_all
               # (if run_ok env p Git_add_all
                  then Ev_run p (Git_commit ''Initial commit - Mobile Access Setup'')
                       # (if run_ok env p (Git_commit ''Initial commit - Mobile Access Setup'')
                          then [Ev_run p (Git_remote_add ''origin'' (remote_url self))] else [])
                  else [])"
    and "run_ok env p Git_add_all \<Longrightarrow> run_ok env p (Git_commit ''Initial commit - Mobile Access Setup'')
         \<Longrightarrow> run_ok env p (Git_remote_add ''origin'' (remote_url self))
         \<Longrightarrow> fst (main_repository_steps cfg env self w) = Inr True"
proof -
  let ?m1 = "Ev_mkdir (mobile_dir self)"
  let ?m2 = "Ev_mkdir p"
  let ?in = "Ev_run p Git_init"
  let ?c2 = "Git_commit ''Initial commit - Mobile Access Setup''"
  let ?c3 = "Git_remote_add ''origin'' (remote_url self)"
  let ?E = "Ev_run p Git_add_all
             # (if run_ok env p Git_add_all
                then Ev_run p ?c2 # (if run_ok env p ?c2 then [Ev_run p ?c3] else [])
                else [])"
  let ?T = "io_seq (subprocess_run env p Git_add_all)
             (io_seq (subprocess_run env p ?c2)
             (io_seq (subprocess_run env p ?c3)
             (io_seq (logger_info (''Created main repository structure: '' @ str_path p))
               (io_return True))))"
  let ?S = "main_repository_steps cfg env self w"
  have "\<exists>w4 art. ?S = ?T w4 \<and> trace w4 = trace w @ [?m1, ?m2, ?in] @ art"
    using main_repository_steps_cases [OF path, of cfg env w]
  proof (elim disjE exE conjE)
    fix e w'
    assume "?S = (Inl e, w')" and "trace w' = trace w @ [?m1]"
    with reached show ?thesis by (simp add: attempted_def)
  next
    fix e w'
    assume "?S = (Inl e, w')" and "trace w' = trace w @ [?m1, ?m2]"
    with reached show ?thesis by (simp add: attempted_def)
  next
    assume "\<not> run_ok env p Git_init"
    with ok show ?thesis by simp
  next
    fix w3
    assume t3: "trace w3 = trace w @ [?m1, ?m2, ?in]"
      and run: "?S = io_seq (create_recommended_subdirectory_structure env p)
                 (io_seq (create_mobile_readme cfg env self p)
                 (io_seq (create_mobile_requirements env p)
                 (io_seq (create_mobile_setup_script env p)
                 (io_seq (create_mobile_dashboard_config cfg env p) ?T)))) w3"
    from generation_methods_run [of w3 env p cfg self ?T] run eo
    obtain w4 art where "trace w4 = trace w3 @ art" and "?S = ?T w4"
      by auto
    with t3 have "?S = ?T w4 \<and> trace w4 = trace w @ [?m1, ?m2, ?in] @ art" by simp
    then show ?thesis by blast
  qed
  then obtain w4 art where S: "?S = ?T w4" and t4: "trace w4 = trace w @ [?m1, ?m2, ?in] @ art"
    by blast
  from version_control_steps_trace [of env p Git_add_all ?c2 ?c3
      "''Created main repository structure: '' @ str_path p" w4] S t4
  have "attempted (main_repository_steps cfg env self) w = [?m1, ?m2, ?in] @ art @ ?E"
    by (simp add: attempted_def)
  then show "\<exists>art. attempted (main_repository_steps cfg env self) w = [?m1, ?m2, ?in] @ art @ ?E"
    by blast
  show "fst ?S = Inr True"
    if "run_ok env p Git_add_all" "run_ok env p ?c2" "run_ok env p ?c3"
    unfolding S by (rule version_control_steps_result [OF that])
qed


text \<open>
  The disk is full while the first temporary file is written: the directory structure
  method logs the failure and returns, and the version-control steps are run all the same.
\<close>

lemma env_disk_full_head:
  "fault env_disk_full (Op_mkdir (mobile_dir manager0)) = None"
  "fault env_disk_full (Op_mkdir repo0) = None"
  "run_ok env_disk_full repo0 c"
  by (simp_all add: env_disk_full_def env0_def run_ok_def)



subsection \<open>The completion report\<close>

lemma report_flags:
  "\<exists>j w'. generate_mobile_completion_report CONFIG env manager0 w = (Inr j, w')
     \<and> jget j ''main_repository_created'' = Some (JBool True)
     \<and> jget j ''next_steps'' = Some (JList [JStr ''Execute Complete Integration Resolution'',
            JStr ''Final System Verification'', JStr ''Mobile Access Testing''])"
  by (simp add: generate_mobile_completion_report_def manager0_def cfg_simps io_simps
        datetime_now_def jget_def)

lemma execute_reports_success:
  assumes "exceptions_only env"
  shows "\<exists>j w'. execute_mobile_access_setup CONFIG env manager0 w = (Inr j, w')
     \<and> jget j ''main_repository_created'' = Some (JBool True)
     \<and> jget j ''next_steps'' = Some (JList [JStr ''Execute Complete Integration Resolution'',
            JStr ''Final System Verification'', JStr ''Mobile Access Testing''])"
proof -
  define w0 where "w0 = w\<lparr>log := log w @ [Log_info ''Starting Mobile Access Setup Manager'']\<rparr>"
  obtain b w1 where cm: "create_main_github_repository CONFIG env manager0 w0 = (Inr b, w1)"
    using returns_create_main_github_repository [OF assms, of CONFIG manager0]
    unfolding returns_def by blast
  obtain s w2 where gi: "generate_mobile_setup_instructions CONFIG env manager0 w1 = (Inr s, w2)"
    using returns_generate_mobile_setup_instructions [OF assms, of CONFIG manager0]
    unfolding returns_def by blast
  obtain j w3 where rep: "generate_mobile_completion_report CONFIG env manager0 w2 = (Inr j, w3)"
    and flags: "jget j ''main_repository_created'' = Some (JBool True)"
      "jget j ''next_steps'' = Some (JList [JStr ''Execute Complete Integration Resolution'',
            JStr ''Final System Verification'', JStr ''Mobile Access Testing''])"
    using report_flags [of env w2] by blast
  have url: "fmt CONFIG ''URLS'' ''MOBILE_DASHBOARD'' = Inr ''http://localhost:8000''"
    by (simp add: fmt_def cfg_simps)
  have "fst (execute_mobile_access_setup CONFIG env manager0 w) = Inr j"
    unfolding execute_mobile_access_setup_def
    by (simp add: io_simps except_Exception_def logger_info_def w0_def [symmetric] cm gi rep url)
  with flags show ?thesis
    by (metis prod.collapse)
qed

text \<open>
  Claim C2 at an input where the code departs from it. The version-control \<^verbatim>\<open>commit\<close>
  exits with status 1: \<^verbatim>\<open>create_main_github_repository\<close> returns \<^verbatim>\<open>False\<close>, and the report
  that \<^verbatim>\<open>execute_mobile_access_setup\<close> returns still has \<^verbatim>\<open>main_repository_created\<close> set
  (with \<^verbatim>\<open>next_steps\<close> populated): the flags of the report are literals.
\<close>

theorem report_ignores_failed_commit:
  "exit_status env_commit_fails repo0 (Git_commit ''Initial commit - Mobile Access Setup'') = 1
   \<and> fst (create_main_github_repository CONFIG env_commit_fails manager0 world0) = Inr False
   \<and> (\<exists>j w'. execute_mobile_access_setup CONFIG env_commit_fails manager0 world0 = (Inr j, w')
        \<and> jget j ''main_repository_created'' = Some (JBool True)
        \<and> jget j ''next_steps'' = Some (JList [JStr ''Execute Complete Integration Resolution'',
              JStr ''Final System Verification'', JStr ''Mobile Access Testing'']))"
proof (intro conjI)
  show "exit_status env_commit_fails repo0 (Git_commit ''Initial commit - Mobile Access Setup'') = 1"
    by (simp add: env_commit_fails_def)
  let ?tail = "io_seq (subprocess_run env_commit_fails repo0 Git_add_all)
      (io_seq (subprocess_run env_commit_fails repo0 (Git_commit ''Initial commit - Mobile Access Setup''))
      (io_seq (subprocess_run env_commit_fails repo0 (Git_remote_add ''origin'' (remote_url manager0)))
      (io_seq (logger_info (''Created main repository structure: '' @ str_path repo0))
        (io_return True))))"
  have "main_repository_steps CONFIG env_commit_fails manager0 world0
    = io_seq (create_recommended_subdirectory_structure env_commit_fails repo0)
      (io_seq (create_mobile_readme CONFIG env_commit_fails manager0 repo0)
      (io_seq (create_mobile_requirements env_commit_fails repo0)
      (io_seq (create_mobile_setup_script env_commit_fails repo0)
      (io_seq (create_mobile_dashboard_config CONFIG env_commit_fails repo0) ?tail))))
       world_after_init"
    by (rule main_repository_steps_head) (simp_all add: env_commit_fails_def env0_def run_ok_def)
  with artifacts_then [OF exceptions_only_env_commit_fails, of repo0 CONFIG manager0 ?tail world_after_init]
  obtain w5 where "main_repository_steps CONFIG env_commit_fails manager0 world0 = ?tail w5"
    by auto
  moreover have "fst (?tail w5) = Inl (CalledProcessError 1)"
    by (simp add: io_simps subprocess_run_def env_commit_fails_def env0_def Let_def)
  ultimately show "fst (create_main_github_repository CONFIG env_commit_fails manager0 world0) = Inr False"
    by (cases "?tail w5")
       (simp add: create_main_github_repository_def except_Exception_def io_simps logger_error_def)
  show "\<exists>j w'. execute_mobile_access_setup CONFIG env_commit_fails manager0 world0 = (Inr j, w')
        \<and> jget j ''main_repository_created'' = Some (JBool True)
        \<and> jget j ''next_steps'' = Some (JList [JStr ''Execute Complete Integration Resolution'',
              JStr ''Final System Verification'', JStr ''Mobile Access Testing''])"
    by (rule execute_reports_success [OF exceptions_only_env_commit_fails])
qed

subsection \<open>Brace expressions in plain literals\<close>

text \<open>
  Claim C4 at an input where the code departs from it. The setup script is a plain string
  literal, not a formatted one: \<^verbatim>\<open>create_mobile_setup_script\<close> does not read the
  configuration at all, raises nothing, and writes the brace expressions into
  \<^verbatim>\<open>mobile_setup.sh\<close> as they stand.
\<close>

theorem setup_script_keeps_placeholders:
  \<open>fst (create_mobile_setup_script env0 [''repo''] w_repo) = Inr ()
   \<and> files (snd (create_mobile_setup_script env0 [''repo''] w_repo)) [''repo'', ''mobile_setup.sh'']
       = Some (setup_script_text_1
               @ text_lines
                   [''echo "Mobile Dashboard: {CONFIG["URLS"]["MOBILE_DASHBOARD"]}"'',
                    ''echo "API Endpoints: {CONFIG["URLS"]["API_ENDPOINTS"]}"'',
                    ''echo "Monitoring: {CONFIG["URLS"]["MONITORING"]}"'',
                    ''echo "Research: {CONFIG["URLS"]["RESEARCH"]}"'',
                    ''echo "GitHub: {CONFIG["URLS"]["GITHUB"]}"'']
               @ setup_script_text_2)
   \<and> log (snd (create_mobile_setup_script env0 [''repo''] w_repo))
       = [Log_info ''Creating mobile setup script'',
          Log_info ''Created mobile setup and server scripts'']\<close>
  by (simp add: create_mobile_setup_script_def mobile_setup_script_steps_def atomic_write_def env0_def w_repo_def world0_def
        named_temporary_file_free next_temp_def file_write_def file_close_def shutil_move_def os_rename_def copy2_def os_chmod_def
        io_simps except_Exception_def Let_def str_nat_0 str_nat_1 path_div_def parts_def
        parent_def basename_def logger_info_def setup_script_content_def
        setup_script_placeholders_def)

subsection \<open>Undisturbed runs below a root\<close>

lemma calm_cong:
  "dirs w' = dirs w \<Longrightarrow> files w' = files w \<Longrightarrow> calm env root w' = calm env root w"
  by (simp add: calm_def temp_free_def root_ready_def)

lemma calm_next_temp:
  assumes "calm env root w"
  shows "files w (next_temp env w) = None" and "next_temp env w \<notin> dirs w"
    and "\<not> prefix root (next_temp env w)"
  using assms by (simp_all add: calm_def temp_free_def next_temp_def tmp_path_def)

lemma prefix_of_extension:
  assumes "q \<in> set (prefixes (root @ xs))"
  shows "prefix q root \<or> prefix root q"
proof -
  from assms have "prefix q (root @ xs)" by simp
  then show ?thesis
    by (auto simp: prefix_append)
qed

text \<open>Creating a directory below the root.\<close>

lemma mkdir_p_calm:
  assumes c: "calm env root w" and nofile: "\<forall>q \<in> set (prefixes (root @ xs)). files w q = None"
  shows "\<exists>w'. mkdir_p env (root @ xs) w = (Inr (), w')
           \<and> dirs w' = dirs w \<union> set (prefixes (root @ xs)) \<and> files w' = files w
           \<and> executable w' = executable w \<and> log w' = log w \<and> ticks w' = ticks w
           \<and> calm env root w'"
proof -
  let ?w' = "w\<lparr>trace := trace w @ [Ev_mkdir (root @ xs)], dirs := dirs w \<union> set (prefixes (root @ xs))\<rparr>"
  from nofile have nf: "files w (root @ xs) = None"
    and nl: "\<not> list_ex (\<lambda>q. files w q \<noteq> None) (prefixes (root @ xs))"
    by (simp_all add: list_ex_iff)
  from c nf nl have run: "mkdir_p env (root @ xs) w = (Inr (), ?w')"
    by (simp add: mkdir_p_def calm_def Let_def)
  have "temp_free env root ?w'"
    unfolding temp_free_def
  proof (intro allI conjI)
    fix n
    from c have t: "files w (tmp_path env n) = None" "tmp_path env n \<notin> dirs w"
      "\<not> prefix root (tmp_path env n)"
      by (simp_all add: calm_def temp_free_def)
    show "files ?w' (tmp_path env n) = None" using t by simp
    show "\<not> prefix root (tmp_path env n)" using t by simp
    show "tmp_path env n \<notin> dirs ?w'"
    proof
      assume "tmp_path env n \<in> dirs ?w'"
      with t have "tmp_path env n \<in> set (prefixes (root @ xs))" by simp
      from prefix_of_extension [OF this] t(3) have "prefix (tmp_path env n) root" by blast
      then have "tmp_path env n \<in> set (prefixes root)" by simp
      with c have "tmp_path env n \<in> dirs w" by (simp add: calm_def root_ready_def)
      with t show False by simp
    qed
  qed
  moreover from c have "root_ready root ?w'"
    by (simp add: calm_def root_ready_def)
  ultimately have "calm env root ?w'"
    using c by (simp add: calm_def)
  with run show ?thesis by simp
qed

text \<open>The atomic write of a file below the root.\<close>

lemma atomic_write_calm:
  assumes c: "calm env root w" and below: "prefix root target" and "root \<noteq> target"
    and nodir: "target \<notin> dirs w" and par: "parent target \<in> dirs w"
  shows "\<exists>w'. atomic_write env target content w = (Inr (), w')
           \<and> dirs w' = dirs w \<and> files w' = (files w)(target \<mapsto> content)
           \<and> executable w' = executable w \<and> log w' = log w \<and> ticks w' = ticks w
           \<and> calm env root w'"
proof -
  note t = calm_next_temp [OF c]
  from t(3) below have ne: "next_temp env w \<noteq> target" by auto
  from c have f: "fault env = (\<lambda>op. None)" by (simp add: calm_def)
  from atomic_write_ok [OF f t(1) t(2) ne nodir par, of content]
  obtain evs where run: "atomic_write env target content w
      = (Inr (), w\<lparr>files := (files w)(target \<mapsto> content), tmp_counter := Suc (tmp_counter w),
                   trace := trace w @ evs\<rparr>)"
    by blast
  let ?w' = "w\<lparr>files := (files w)(target \<mapsto> content), tmp_counter := Suc (tmp_counter w),
                   trace := trace w @ evs\<rparr>"
  have "temp_free env root ?w'"
    unfolding temp_free_def
  proof (intro allI conjI)
    fix n
    from c have tn: "files w (tmp_path env n) = None" "tmp_path env n \<notin> dirs w"
      "\<not> prefix root (tmp_path env n)"
      by (simp_all add: calm_def temp_free_def)
    from tn(3) below have "tmp_path env n \<noteq> target" by auto
    with tn show "files ?w' (tmp_path env n) = None" by simp
    from tn show "tmp_path env n \<notin> dirs ?w'" by simp
    from tn show "\<not> prefix root (tmp_path env n)" by simp
  qed
  moreover have "root_ready root ?w'"
    unfolding root_ready_def
  proof
    fix q assume q: "q \<in> set (prefixes root)"
    with c have "q \<in> dirs w" "files w q = None" by (simp_all add: calm_def root_ready_def)
    moreover from q below \<open>root \<noteq> target\<close> have "q \<noteq> target"
      by (metis in_set_prefixes prefix_order.antisym)
    ultimately show "q \<in> dirs ?w' \<and> files ?w' q = None" by simp
  qed
  ultimately have "calm env root ?w'" using f by (simp add: calm_def)
  with run show ?thesis by simp
qed

lemma parts_README: "parts ''README.md'' = [''README.md'']"
  by (simp add: parts_def)

lemma parts_gitkeep: "parts ''.gitkeep'' = [''.gitkeep'']"
  by (simp add: parts_def)

lemma touch_calm:
  assumes c: "calm env root w" and below: "prefix root p" and "root \<noteq> p"
    and par: "parent p \<in> dirs w"
  shows "\<exists>w'. touch env p w = (Inr (), w')
           \<and> dirs w' = dirs w
           \<and> files w' = (if files w p = None \<and> p \<notin> dirs w then (files w)(p \<mapsto> []) else files w)
           \<and> executable w' = executable w \<and> log w' = log w \<and> ticks w' = ticks w
           \<and> calm env root w'"
proof (cases "files w p = None \<and> p \<notin> dirs w")
  case False
  let ?w' = "w\<lparr>trace := trace w @ [Ev_touch p]\<rparr>"
  from c False have "touch env p w = (Inr (), ?w')"
    by (auto simp: touch_def calm_def Let_def)
  moreover have "calm env root ?w' = calm env root w" by (rule calm_cong) simp_all
  ultimately show ?thesis using c False by auto
next
  case True
  let ?w' = "w\<lparr>trace := trace w @ [Ev_touch p], files := (files w)(p \<mapsto> [])\<rparr>"
  from c True par have run: "touch env p w = (Inr (), ?w')"
    by (simp add: touch_def calm_def Let_def)
  have "temp_free env root ?w'"
    unfolding temp_free_def
  proof (intro allI conjI)
    fix n
    from c have tn: "files w (tmp_path env n) = None" "tmp_path env n \<notin> dirs w"
      "\<not> prefix root (tmp_path env n)"
      by (simp_all add: calm_def temp_free_def)
    from tn(3) below have "tmp_path env n \<noteq> p" by auto
    with tn show "files ?w' (tmp_path env n) = None" by simp
    from tn show "tmp_path env n \<notin> dirs ?w'" by simp
    from tn show "\<not> prefix root (tmp_path env n)" by simp
  qed
  moreover have "root_ready root ?w'"
    unfolding root_ready_def
  proof
    fix q assume q: "q \<in> set (prefixes root)"
    with c have "q \<in> dirs w" "files w q = None" by (simp_all add: calm_def root_ready_def)
    moreover from q below \<open>root \<noteq> p\<close> have "q \<noteq> p"
      by (metis in_set_prefixes prefix_order.antisym)
    ultimately show "q \<in> dirs ?w' \<and> files ?w' q = None" by simp
  qed
  ultimately have "calm env root ?w'" using c by (simp add: calm_def)
  with run True show ?thesis by simp
qed

lemma expand_entry_calm:
  assumes c: "calm env root w"
    and nofile: "\<forall>q \<in> set (prefixes (path_div root (fst entry))). files w q = None"
    and nodir: "path_div (path_div root (fst entry)) ''README.md'' \<notin> dirs w"
  shows "\<exists>w'. expand_entry env root entry w = (Inr (), w')
           \<and> (dirs w', files w') = entry_effect root entry (dirs w, files w)
           \<and> executable w' = executable w \<and> log w' = log w \<and> ticks w' = ticks w
           \<and> calm env root w'"
proof -
  define d where "d = root @ parts (fst entry)"
  define r where "r = d @ [''README.md'']"
  define g where "g = d @ [''.gitkeep'']"
  have paths: "path_div root (fst entry) = d" "path_div d ''README.md'' = r"
    "path_div d ''.gitkeep'' = g"
    by (simp_all add: path_div_def d_def r_def g_def parts_README parts_gitkeep)
  from nofile have nf: "\<forall>q \<in> set (prefixes (root @ parts (fst entry))). files w q = None"
    by (simp add: path_div_def)
  from mkdir_p_calm [OF c nf] obtain w1 where
    s1: "mkdir_p env d w = (Inr (), w1)" and
    w1: "dirs w1 = dirs w \<union> set (prefixes d)" "files w1 = files w" "executable w1 = executable w"
      "log w1 = log w" "ticks w1 = ticks w" and c1: "calm env root w1"
    unfolding d_def by blast
  have br: "prefix root r" "root \<noteq> r" and bg: "prefix root g" "root \<noteq> g"
    by (simp_all add: r_def g_def d_def)
  have rnd: "r \<notin> dirs w1"
    using nodir by (simp add: w1 paths) (simp add: r_def)
  have rpar: "parent r \<in> dirs w1"
    by (simp add: w1 parent_def r_def)
  from atomic_write_calm [OF c1 br rnd rpar, of "dir_readme_content (fst entry) (snd entry)"]
  obtain w2 where
    s2: "atomic_write env r (dir_readme_content (fst entry) (snd entry)) w1 = (Inr (), w2)" and
    w2: "dirs w2 = dirs w1"
      "files w2 = (files w1)(r \<mapsto> dir_readme_content (fst entry) (snd entry))"
      "executable w2 = executable w1" "log w2 = log w1" "ticks w2 = ticks w1"
    and c2: "calm env root w2"
    by blast
  have gpar: "parent g \<in> dirs w2"
    by (simp add: w2 w1 parent_def g_def)
  from touch_calm [OF c2 bg gpar] obtain w3 where
    s3: "touch env g w2 = (Inr (), w3)" and
    w3: "dirs w3 = dirs w2"
      "files w3 = (if files w2 g = None \<and> g \<notin> dirs w2 then (files w2)(g \<mapsto> []) else files w2)"
      "executable w3 = executable w2" "log w3 = log w2" "ticks w3 = ticks w2"
    and c3: "calm env root w3"
    by blast
  have run: "expand_entry env root entry w = (Inr (), w3)"
    by (simp add: expand_entry_def Let_def paths io_simps s1 s2 s3)
  have gr: "g \<noteq> r" by (simp add: g_def r_def)
  have "(dirs w3, files w3) = entry_effect root entry (dirs w, files w)"
    using gr by (auto simp: entry_effect_def Let_def paths w3 w2 w1)
  with run c3 w1 w2 w3 show ?thesis by simp
qed

lemma flat_parts: "length (parts n) = 1 \<Longrightarrow> \<exists>c. parts n = [c]"
  by (cases "parts n") simp_all

lemma expandable_step:
  assumes x: "expandable root X w" and fx: "flat X" and fe: "length (parts (fst entry)) = 1"
    and eff: "(dirs w', files w') = entry_effect root entry (dirs w, files w)"
  shows "expandable root X w'"
  unfolding expandable_def
proof
  fix e assume e: "e \<in> set X"
  from fx e have "length (parts (fst e)) = 1" by (simp add: flat_def)
  from flat_parts [OF this] obtain c where pc: "parts (fst e) = [c]"
    by blast
  then have dc: "path_div root (fst e) = root @ [c]" by (simp add: path_div_def)
  from flat_parts [OF fe] obtain c0 where pc0: "parts (fst entry) = [c0]"
    by blast
  then have d0: "path_div root (fst entry) = root @ [c0]" by (simp add: path_div_def)
  from x e have h: "files w (root @ [c]) = None" "root @ [c, ''README.md''] \<notin> dirs w"
    by (auto simp: expandable_def path_div_def parts_README pc)
  from eff have D: "dirs w' = dirs w \<union> set (prefixes (root @ [c0]))"
    by (simp add: entry_effect_def Let_def path_div_def pc0 split: if_splits)
  from eff have F: "\<And>q. q \<noteq> root @ [c0, ''README.md''] \<Longrightarrow> q \<noteq> root @ [c0, ''.gitkeep'']
      \<Longrightarrow> files w' q = files w q"
    by (auto simp: entry_effect_def Let_def path_div_def pc0 parts_README parts_gitkeep
        split: if_splits)
  have "files w' (root @ [c]) = None"
    using F [of "root @ [c]"] h by simp
  moreover have "root @ [c, ''README.md''] \<notin> dirs w'"
    using h by (auto simp: D prefixes_snoc dest: prefix_length_le)
  ultimately show "files w' (path_div root (fst e)) = None
        \<and> path_div (path_div root (fst e)) ''README.md'' \<notin> dirs w'"
    by (simp add: pc path_div_def parts_README)
qed

lemma expand_loop_calm:
  assumes "calm env root w" and "flat entries" and "expandable root entries w"
  shows "\<exists>w'. expand_loop env root entries w = (Inr (), w')
           \<and> (dirs w', files w') = fold (entry_effect root) entries (dirs w, files w)
           \<and> executable w' = executable w \<and> log w' = log w \<and> ticks w' = ticks w
           \<and> calm env root w'
           \<and> (\<forall>X. flat X \<longrightarrow> expandable root X w \<longrightarrow> expandable root X w')"
  using assms
proof (induction entries arbitrary: w)
  case Nil
  then show ?case by (simp add: io_simps)
next
  case (Cons entry entries)
  from Cons.prems(2) have fe: "length (parts (fst entry)) = 1" and fes: "flat entries"
    by (simp_all add: flat_def)
  from flat_parts [OF fe] obtain c where pc: "parts (fst entry) = [c]"
    by blast
  then have dc: "path_div root (fst entry) = root @ [c]" by (simp add: path_div_def)
  from Cons.prems(1) have rr: "\<forall>q \<in> set (prefixes root). files w q = None"
    by (simp add: calm_def root_ready_def)
  from Cons.prems(3) have h: "files w (path_div root (fst entry)) = None"
    "path_div (path_div root (fst entry)) ''README.md'' \<notin> dirs w"
    and xes: "expandable root entries w"
    by (simp_all add: expandable_def)
  from rr h(1) have nofile: "\<forall>q \<in> set (prefixes (path_div root (fst entry))). files w q = None"
    by (auto simp: dc prefixes_snoc)
  from expand_entry_calm [OF Cons.prems(1) nofile h(2)] obtain w1 where
    s1: "expand_entry env root entry w = (Inr (), w1)" and
    e1: "(dirs w1, files w1) = entry_effect root entry (dirs w, files w)" and
    k1: "executable w1 = executable w" "log w1 = log w" "ticks w1 = ticks w" and
    c1: "calm env root w1"
    by blast
  have keep: "\<And>X. flat X \<Longrightarrow> expandable root X w \<Longrightarrow> expandable root X w1"
    using expandable_step [OF _ _ fe e1] by blast
  from Cons.IH [OF c1 fes keep [OF fes xes]] obtain w' where
    s2: "expand_loop env root entries w1 = (Inr (), w')" and
    e2: "(dirs w', files w') = fold (entry_effect root) entries (dirs w1, files w1)" and
    k2: "executable w' = executable w1" "log w' = log w1" "ticks w' = ticks w1" and
    c2: "calm env root w'" and
    keep2: "\<forall>X. flat X \<longrightarrow> expandable root X w1 \<longrightarrow> expandable root X w'"
    by blast
  from s1 s2 have "expand_loop env root (entry # entries) w = (Inr (), w')"
    by (simp add: io_simps)
  moreover from e1 e2 have "(dirs w', files w')
      = fold (entry_effect root) (entry # entries) (dirs w, files w)"
    by simp
  ultimately show ?case
    using k1 k2 c2 keep keep2 by auto
qed

subsection \<open>Running the expansion twice\<close>

lemma readme_not_gitkeep: "path_div d ''README.md'' \<noteq> path_div d' ''.gitkeep''"
  by (simp add: path_div_def parts_README parts_gitkeep)

lemma readme_inject:
  "path_div (path_div root n) ''README.md'' = path_div (path_div root n') ''README.md''
   \<longleftrightarrow> parts n = parts n'"
  by (simp add: path_div_def parts_README)

lemma gitkeep_inject:
  "path_div (path_div root n) ''.gitkeep'' = path_div (path_div root n') ''.gitkeep''
   \<longleftrightarrow> parts n = parts n'"
  by (simp add: path_div_def parts_gitkeep)

lemma settled_fixed:
  assumes "settled root entry t"
  shows "entry_effect root entry t = t"
proof -
  let ?d = "path_div root (fst entry)"
  let ?r = "path_div ?d ''README.md''"
  let ?g = "path_div ?d ''.gitkeep''"
  from assms have sub: "set (prefixes ?d) \<subseteq> fst t"
    and rd: "snd t ?r = Some (dir_readme_content (fst entry) (snd entry))"
    and gk: "snd t ?g \<noteq> None \<or> ?g \<in> fst t"
    by (auto simp: settled_def Let_def split: option.splits)
  from sub have D: "fst t \<union> set (prefixes ?d) = fst t" by blast
  from rd have F: "(snd t)(?r \<mapsto> dir_readme_content (fst entry) (snd entry)) = snd t"
    by (simp add: fun_upd_idem)
  have E: "entry_effect root entry t
      = (fst t, if snd t ?g = None \<and> ?g \<notin> fst t then (snd t)(?g \<mapsto> []) else snd t)"
    unfolding entry_effect_def Let_def D F ..
  from gk show ?thesis
    unfolding E by auto
qed

lemma effect_settles: "settled root entry (entry_effect root entry t)"
  using readme_not_gitkeep [of "path_div root (fst entry)" "path_div root (fst entry)"]
  by (auto simp: settled_def entry_effect_def Let_def split: option.splits)

lemma effect_keeps:
  assumes "settled root entry t" and "parts (fst entry) \<noteq> parts (fst other)"
  shows "settled root entry (entry_effect root other t)"
proof -
  let ?d = "path_div root (fst entry)"
  let ?r = "path_div ?d ''README.md''"
  let ?g = "path_div ?d ''.gitkeep''"
  let ?d' = "path_div root (fst other)"
  let ?r' = "path_div ?d' ''README.md''"
  let ?g' = "path_div ?d' ''.gitkeep''"
  from assms(2) have ne: "?r \<noteq> ?r'" "?g \<noteq> ?g'" "?r \<noteq> ?g'" "?g \<noteq> ?r'"
    using readme_not_gitkeep [of ?d ?d'] readme_not_gitkeep [of ?d' ?d]
    by (simp_all add: readme_inject gitkeep_inject)
  from assms(1) have sub: "set (prefixes ?d) \<subseteq> fst t"
    and rd: "snd t ?r = Some (dir_readme_content (fst entry) (snd entry))"
    and gk: "case snd t ?g of Some b \<Rightarrow> True | None \<Rightarrow> ?g \<in> fst t"
    by (simp_all add: settled_def Let_def)
  have F: "\<And>q. q \<noteq> ?r' \<Longrightarrow> q \<noteq> ?g' \<Longrightarrow> snd (entry_effect root other t) q = snd t q"
    by (simp add: entry_effect_def Let_def)
  have D: "fst t \<subseteq> fst (entry_effect root other t)"
    by (simp add: entry_effect_def Let_def)
  show ?thesis
    unfolding settled_def Let_def
  proof (intro conjI)
    show "set (prefixes ?d) \<subseteq> fst (entry_effect root other t)"
      using sub D by blast
    show "snd (entry_effect root other t) ?r = Some (dir_readme_content (fst entry) (snd entry))"
      using F [of ?r] ne rd by simp
    show "case snd (entry_effect root other t) ?g of Some b \<Rightarrow> True
          | None \<Rightarrow> ?g \<in> fst (entry_effect root other t)"
      using F [of ?g] ne gk D by (auto split: option.splits)
  qed
qed

lemma fold_keeps:
  assumes "settled root entry t" and "\<forall>e \<in> set entries. parts (fst entry) \<noteq> parts (fst e)"
  shows "settled root entry (fold (entry_effect root) entries t)"
  using assms by (induction entries arbitrary: t) (simp_all add: effect_keeps)

lemma fold_settles:
  assumes "distinct (map (\<lambda>e. parts (fst e)) entries)"
  shows "\<forall>e \<in> set entries. settled root e (fold (entry_effect root) entries t)"
  using assms
proof (induction entries arbitrary: t)
  case Nil
  then show ?case by simp
next
  case (Cons entry entries)
  from Cons.prems have d: "distinct (map (\<lambda>e. parts (fst e)) entries)"
    and ne: "\<forall>e \<in> set entries. parts (fst entry) \<noteq> parts (fst e)"
    by auto
  from fold_keeps [OF effect_settles ne]
  have "settled root entry (fold (entry_effect root) entries (entry_effect root entry t))" .
  with Cons.IH [OF d] show ?case by simp
qed

lemma fold_fixed:
  assumes "\<forall>e \<in> set entries. entry_effect root e t = t"
  shows "fold (entry_effect root) entries t = t"
  using assms by (induction entries) simp_all

lemma expansion_fixed_point:
  assumes "distinct (map (\<lambda>e. parts (fst e)) entries)"
  shows "fold (entry_effect root) entries (fold (entry_effect root) entries t)
         = fold (entry_effect root) entries t"
  using fold_settles [OF assms] by (intro fold_fixed) (simp add: settled_fixed)

lemma flat_subdirectories: "flat subdirectories"
  by (simp add: flat_def subdirectories_def parts_def)

lemma distinct_subdirectories: "distinct (map (\<lambda>e. parts (fst e)) subdirectories)"
  by (simp add: subdirectories_def parts_def)

lemma structure_calm:
  assumes c: "calm env root w" and x: "expandable root subdirectories w"
  shows "\<exists>w'. create_recommended_subdirectory_structure env root w = (Inr (), w')
          \<and> (dirs w', files w') = fold (entry_effect root) subdirectories (dirs w, files w)
          \<and> log w' = log w @ [Log_info ''Creating recommended subdirectory structure'',
                               Log_info ''Created recommended subdirectory structure'']
          \<and> executable w' = executable w \<and> ticks w' = ticks w
          \<and> calm env root w' \<and> expandable root subdirectories w'"
proof -
  let ?w0 = "w\<lparr>log := log w @ [Log_info ''Creating recommended subdirectory structure'']\<rparr>"
  have c0: "calm env root ?w0"
    using c calm_cong [of ?w0 w env root] by simp
  have x0: "expandable root subdirectories ?w0"
    using x by (simp add: expandable_def)
  from expand_loop_calm [OF c0 flat_subdirectories x0] obtain w1 where
    run: "expand_loop env root subdirectories ?w0 = (Inr (), w1)" and
    eff: "(dirs w1, files w1) = fold (entry_effect root) subdirectories (dirs ?w0, files ?w0)" and
    k: "executable w1 = executable ?w0" "log w1 = log ?w0" "ticks w1 = ticks ?w0" and
    c1: "calm env root w1" and
    keep: "\<forall>X. flat X \<longrightarrow> expandable root X ?w0 \<longrightarrow> expandable root X w1"
    by blast
  let ?w' = "w1\<lparr>log := log w1 @ [Log_info ''Created recommended subdirectory structure'']\<rparr>"
  from run have "create_recommended_subdirectory_structure env root w = (Inr (), ?w')"
    by (simp add: create_recommended_subdirectory_structure_def subdirectory_structure_steps_def except_Exception_def io_simps
          logger_info_def)
  moreover have "calm env root ?w'"
    using c1 calm_cong [of ?w' w1 env root] by simp
  moreover from keep flat_subdirectories x0 have "expandable root subdirectories ?w'"
    by (simp add: expandable_def)
  ultimately show ?thesis
    using eff k by simp
qed


lemma calm_env0_repo: "calm env0 [''repo''] w_repo"
  by (simp add: calm_def temp_free_def tmp_path_def root_ready_def env0_def w_repo_def world0_def)

lemma expandable_repo: "expandable [''repo''] subdirectories w_repo"
  by (simp add: expandable_def subdirectories_def path_div_def parts_def w_repo_def world0_def)


end
